theory Spec2Isabelle
  imports Main "HOL-Library.Word"
begin

section \<open>JavaScript strings and JSON values\<close>

text \<open>
  A JavaScript string is a sequence of UTF-16 code units, and \<open>length\<close>, \<open>trim\<close>,
  \<open>startsWith\<close>, \<open>substring\<close>, \<open>split\<close> and \<open>includes\<close> all work on code units.
  String literals of the source are written \<open>js ''...''\<close>.
\<close>

type_synonym code_unit = "16 word"
type_synonym jsstring = "code_unit list"

definition js :: "string \<Rightarrow> jsstring" where
  "js s = map of_char s"

text \<open>
  \<open>String.prototype.trim\<close> removes the ECMAScript WhiteSpace and LineTerminator code
  points from both ends: TAB, LF, VT, FF, CR, SP, NBSP, U+1680, U+2000 to U+200A, U+2028,
  U+2029, U+202F, U+205F, U+3000 and U+FEFF.
\<close>

definition isWhiteSpace :: "code_unit \<Rightarrow> bool" where
  "isWhiteSpace c \<longleftrightarrow>
     c \<in> set [0x09, 0x0A, 0x0B, 0x0C, 0x0D, 0x20, 0xA0, 0x1680,
              0x2028, 0x2029, 0x202F, 0x205F, 0x3000, 0xFEFF]
     \<or> (0x2000 \<le> c \<and> c \<le> 0x200A)"

definition trim :: "jsstring \<Rightarrow> jsstring" where
  "trim s = rev (dropWhile isWhiteSpace (rev (dropWhile isWhiteSpace s)))"

text \<open>\<open>Array.prototype.join\<close> on an array of strings.\<close>

fun join :: "jsstring \<Rightarrow> jsstring list \<Rightarrow> jsstring" where
  "join sep [] = []"
| "join sep [x] = x"
| "join sep (x # y # ys) = x @ sep @ join sep (y # ys)"

text \<open>\<open>a || b\<close> on strings: the empty string is falsy.\<close>

definition or_else :: "jsstring \<Rightarrow> jsstring \<Rightarrow> jsstring" where
  "or_else a b = (if a = [] then b else a)"

text \<open>\<open>s.startsWith(p)\<close> and \<open>s.substring(n)\<close> for \<open>n \<ge> 0\<close>.\<close>

definition startsWith :: "jsstring \<Rightarrow> jsstring \<Rightarrow> bool" where
  "startsWith s p \<longleftrightarrow> take (length p) s = p"

definition substring :: "jsstring \<Rightarrow> nat \<Rightarrow> jsstring" where
  "substring s n = drop n s"

text \<open>
  \<open>s.split(sep)\<close> for a separator of one code unit: the pieces between the
  separators, so an input without separator gives one piece (also for the empty string).
\<close>

fun split_acc :: "code_unit \<Rightarrow> jsstring \<Rightarrow> jsstring \<Rightarrow> jsstring list" where
  "split_acc sep cur [] = [rev cur]"
| "split_acc sep cur (c # cs) =
     (if c = sep then rev cur # split_acc sep [] cs else split_acc sep (c # cur) cs)"

definition split :: "jsstring \<Rightarrow> code_unit \<Rightarrow> jsstring list" where
  "split s sep = split_acc sep [] s"

text \<open>\<open>s.includes(k)\<close>: \<open>k\<close> occurs in \<open>s\<close> as a contiguous run.\<close>

fun includes_str :: "jsstring \<Rightarrow> jsstring \<Rightarrow> bool" where
  "includes_str [] k \<longleftrightarrow> k = []"
| "includes_str (c # cs) k \<longleftrightarrow> startsWith (c # cs) k \<or> includes_str cs k"

text \<open>
  The payload of a JSON number is never inspected by the service, so the type of
  JavaScript numbers is left abstract. \<open>req.body\<close> is a \<open>json option\<close>: \<open>None\<close> is
  \<open>undefined\<close> (no body was parsed). An object is the list of its own properties.
\<close>

typedecl jsnumber

datatype json =
    JNull
  | JBool bool
  | JNum jsnumber
  | JStr jsstring
  | JArr "json list"
  | JObj "(jsstring \<times> json) list"

definition get_prop :: "(jsstring \<times> json) list \<Rightarrow> jsstring \<Rightarrow> json option" where
  "get_prop fs k = map_of fs k"

section \<open>Errors, responses and the middleware protocol\<close>

text \<open>
  \<open>class AppError extends Error\<close> (error-handler.middleware.ts) carries a
  \<open>statusCode\<close>, taken here to be an integer; every other thrown value is an \<open>Error\<close>
  with a message.
\<close>

datatype js_error =
    Error jsstring
  | AppError jsstring int

fun err_message :: "js_error \<Rightarrow> jsstring" where
  "err_message (Error m) = m"
| "err_message (AppError m c) = m"

text \<open>\<open>interface ValidationErrorDetail\<close> (validation.middleware.ts).\<close>

record ValidationErrorDetail =
  field :: jsstring
  message :: jsstring
  code :: jsstring

text \<open>\<open>interface ResourceResponse\<close> and \<open>AskJijiData\<close> (api-types.ts).\<close>

datatype resource_type = Ppt | Video

record ResourceResponse =
  res_id :: jsstring
  res_title :: jsstring
  res_type :: resource_type
  res_url :: jsstring

datatype payload =
    HealthData jsstring jsstring jsstring
  | AskJijiData jsstring "ResourceResponse list"

text \<open>
  What a handler passes to \<open>res.status(c).json(b)\<close>: the status code and the
  \<open>ApiResponse\<close> body (\<open>success\<close>, optional \<open>data\<close>, optional \<open>error\<close>), with the
  optional \<open>details\<close> of the validation middleware. (With some statuses, such as 204
  and 304, Express sends the status line without the body; the record holds the body
  handed to \<open>json\<close>.)
\<close>

record response =
  status :: int
  success :: bool
  data :: "payload option"
  error :: "jsstring option"
  details :: "ValidationErrorDetail list option"

text \<open>\<open>req.user\<close> of \<open>AuthenticatedRequest\<close> (auth.middleware.ts).\<close>

record identity =
  user_id :: jsstring
  email :: jsstring
  role :: jsstring

record request =
  authorization :: "jsstring option"
  body :: "json option"
  user :: "identity option"

text \<open>
  An Express middleware either calls \<open>next()\<close> with the (possibly updated) request,
  sends a response, or calls \<open>next(error)\<close>.
\<close>

datatype outcome =
    Next request
  | Respond response
  | NextError js_error

section \<open>Validation middleware (validation.middleware.ts)\<close>

text \<open>
  A Zod issue, and the result of \<open>schema.parse\<close>: the parsed value, a \<open>ZodError\<close>
  with its issues, or some other thrown error.
\<close>

record issue =
  issue_path :: "jsstring list"
  issue_message :: jsstring
  issue_code :: jsstring

datatype parse_result =
    Parsed json
  | ZodError "issue list"
  | Thrown js_error

text \<open>
  The length checks \<open>min\<close> and \<open>max\<close> of a Zod string schema count characters as
  Unicode code points, not as code units: a high surrogate followed by a low surrogate
  is one character, and every other code unit (an unpaired surrogate too) is one. So a
  query of 501 characters outside the Basic Multilingual Plane, which is 1002 code
  units, passes \<open>max(1000)\<close>.
\<close>

definition isHighSurrogate :: "code_unit \<Rightarrow> bool" where
  "isHighSurrogate c \<longleftrightarrow> 0xD800 \<le> c \<and> c \<le> 0xDBFF"

definition isLowSurrogate :: "code_unit \<Rightarrow> bool" where
  "isLowSurrogate c \<longleftrightarrow> 0xDC00 \<le> c \<and> c \<le> 0xDFFF"

fun code_points :: "jsstring \<Rightarrow> nat" where
  "code_points [] = 0"
| "code_points [c] = 1"
| "code_points (c # d # cs) =
     (if isHighSurrogate c \<and> isLowSurrogate d then Suc (code_points cs)
      else Suc (code_points (d # cs)))"

text \<open>
  \<open>askJijiSchema\<close>: \<open>z.object({ query: z.string({error: ...}).min(1, ...).max(1000, ...)
  .trim().refine((val) => val.length > 0, ...) })\<close>. Zod runs the checks of a string
  schema in the order they are chained and collects the issues of all of them: \<open>min\<close> and
  \<open>max\<close> see the string as received, \<open>trim\<close> then replaces it, and the refinement sees
  the trimmed string (its \<open>val.length\<close> is the JavaScript length, in code units).
\<close>

definition query_checks :: "jsstring \<Rightarrow> issue list" where
  "query_checks s =
     (if code_points s < 1
      then [\<lparr>issue_path = [js ''query''], issue_message = js ''Query cannot be empty'',
             issue_code = js ''too_small''\<rparr>] else [])
   @ (if code_points s > 1000
      then [\<lparr>issue_path = [js ''query''],
             issue_message = js ''Query cannot exceed 1000 characters'',
             issue_code = js ''too_big''\<rparr>] else [])
   @ (if length (trim s) > 0 then []
      else [\<lparr>issue_path = [js ''query''],
             issue_message = js ''Query cannot be only whitespace'',
             issue_code = js ''custom''\<rparr>])"

text \<open>The type names Zod reports for a value that is not an object.\<close>

fun received :: "json option \<Rightarrow> jsstring" where
  "received None = js ''undefined''"
| "received (Some JNull) = js ''null''"
| "received (Some (JBool b)) = js ''boolean''"
| "received (Some (JNum n)) = js ''number''"
| "received (Some (JStr s)) = js ''string''"
| "received (Some (JArr xs)) = js ''array''"
| "received (Some (JObj fs)) = js ''object''"

text \<open>
  An input that is not an object is one issue at the root (empty path). In an object,
  a \<open>query\<close> that is absent or not a string is one \<open>invalid_type\<close> issue at \<open>query\<close>, and
  the string checks do not run. Unknown keys are stripped from the parsed value.
\<close>

definition askJijiSchema :: "json option \<Rightarrow> parse_result" where
  "askJijiSchema b =
     (case b of
        Some (JObj fs) \<Rightarrow>
          (case get_prop fs (js ''query'') of
             Some (JStr s) \<Rightarrow>
               (if query_checks s = [] then Parsed (JObj [(js ''query'', JStr (trim s))])
                else ZodError (query_checks s))
           | _ \<Rightarrow>
               ZodError [\<lparr>issue_path = [js ''query''],
                          issue_message = js ''Query must be a string'',
                          issue_code = js ''invalid_type''\<rparr>])
      | _ \<Rightarrow>
          ZodError [\<lparr>issue_path = [],
                     issue_message = js ''Invalid input: expected object, received '' @ received b,
                     issue_code = js ''invalid_type''\<rparr>])"

text \<open>\<open>error.issues.map((issue) => ({field: issue.path.join(".") || "body", ...}))\<close>\<close>

definition to_detail :: "issue \<Rightarrow> ValidationErrorDetail" where
  "to_detail i =
     \<lparr>field = or_else (join (js ''.'') (issue_path i)) (js ''body''),
      message = issue_message i,
      code = issue_code i\<rparr>"

definition summary :: "ValidationErrorDetail list \<Rightarrow> jsstring" where
  "summary ds =
     js ''Validation failed: '' @ join (js '', '') (map (\<lambda>d. field d @ js '': '' @ message d) ds)"

definition validateBody :: "(json option \<Rightarrow> parse_result) \<Rightarrow> request \<Rightarrow> outcome" where
  "validateBody schema req =
     (case schema (body req) of
        Parsed parsed \<Rightarrow> Next (req\<lparr>body := Some parsed\<rparr>)
      | ZodError issues \<Rightarrow>
          (let ds = map to_detail issues in
           Respond \<lparr>status = 400, success = False, data = None,
                    error = Some (summary ds), details = Some ds\<rparr>)
      | Thrown e \<Rightarrow> NextError e)"

section \<open>Configuration (config/supabase.ts)\<close>

text \<open>
  The environment variables the service reads. \<open>Boolean(a && b)\<close> on two optional
  strings is true when both are present and non-empty.
\<close>

record env =
  SUPABASE_URL :: "jsstring option"
  SUPABASE_ANON_KEY :: "jsstring option"
  SUPABASE_SERVICE_ROLE_KEY :: "jsstring option"
  NODE_ENV :: "jsstring option"

definition truthy :: "jsstring option \<Rightarrow> bool" where
  "truthy v \<longleftrightarrow> (case v of None \<Rightarrow> False | Some s \<Rightarrow> s \<noteq> [])"

definition isSupabaseConfigured :: "env \<Rightarrow> bool" where
  "isSupabaseConfigured e \<longleftrightarrow> truthy (SUPABASE_URL e) \<and> truthy (SUPABASE_ANON_KEY e)"

definition isSupabaseAdminConfigured :: "env \<Rightarrow> bool" where
  "isSupabaseAdminConfigured e \<longleftrightarrow>
     truthy (SUPABASE_URL e) \<and> truthy (SUPABASE_SERVICE_ROLE_KEY e)"

text \<open>A client handle made by \<open>createClient(url, key)\<close>.\<close>

record client =
  client_url :: jsstring
  client_key :: jsstring

definition supabase :: "env \<Rightarrow> client option" where
  "supabase e =
     (case (SUPABASE_URL e, SUPABASE_ANON_KEY e) of
        (Some u, Some k) \<Rightarrow>
          (if isSupabaseConfigured e \<and> u \<noteq> [] \<and> k \<noteq> []
           then Some \<lparr>client_url = u, client_key = k\<rparr> else None)
      | _ \<Rightarrow> None)"

definition supabaseAdmin :: "env \<Rightarrow> client option" where
  "supabaseAdmin e =
     (case (SUPABASE_URL e, SUPABASE_SERVICE_ROLE_KEY e) of
        (Some u, Some k) \<Rightarrow>
          (if isSupabaseAdminConfigured e \<and> u \<noteq> [] \<and> k \<noteq> []
           then Some \<lparr>client_url = u, client_key = k\<rparr> else None)
      | _ \<Rightarrow> None)"

section \<open>The hosted backend\<close>

text \<open>
  The hosted services are outside the repository. What a call on a client handle does
  is an input of the model: it throws, or it returns the \<open>{data, error}\<close> pair of the
  client library. A \<open>data\<close> that cannot be destructured counts as a throw (a TypeError).
\<close>

record auth_user =
  au_id :: jsstring
  au_email :: "jsstring option"
  au_role :: "jsstring option"

datatype getUser_result =
    GetUserThrows js_error
  | GetUserReturns "auth_user option" "jsstring option"

text \<open>The row \<open>saveQuery\<close> inserts, and \<open>interface SavedQuery\<close> (query-service.ts).\<close>

record query_row =
  row_user_id :: "jsstring option"
  query_text :: jsstring
  answer_text :: jsstring
  resources_returned :: "jsstring list"

record SavedQuery =
  saved_id :: jsstring
  saved_row :: query_row
  created_at :: jsstring

datatype insert_result =
    InsertThrows js_error
  | InsertReturns "SavedQuery option" "jsstring option"

text \<open>\<open>interface Resource\<close> (api-types.ts), a row of the resources table.\<close>

record Resource =
  r_id :: jsstring
  r_title :: jsstring
  r_description :: jsstring
  r_type :: resource_type
  r_file_url :: jsstring
  r_tags :: "jsstring list"
  r_created_at :: jsstring

datatype search_result =
    SearchThrows js_error
  | SearchReturns "Resource list option" "jsstring option"

record backend =
  auth_getUser :: "client \<Rightarrow> jsstring \<Rightarrow> getUser_result"
  db_insert_query :: "client \<Rightarrow> query_row \<Rightarrow> insert_result"
  db_search_resources :: "client \<Rightarrow> jsstring \<Rightarrow> search_result"

text \<open>A call of the logger: level and message.\<close>

datatype log_level = LogInfo | LogWarn | LogError

type_synonym log_entry = "log_level \<times> jsstring"

section \<open>Authentication middleware (auth.middleware.ts)\<close>

definition mock_user :: identity where
  "mock_user =
     \<lparr>user_id = js ''mock-user-id'', email = js ''mock@example.com'',
      role = js ''authenticated''\<rparr>"

definition fail_response :: "int \<Rightarrow> jsstring \<Rightarrow> response" where
  "fail_response c msg =
     \<lparr>status = c, success = False, data = None, error = Some msg, details = None\<rparr>"

text \<open>\<open>v || d\<close> for an optional string \<open>v\<close>.\<close>

definition opt_or :: "jsstring option \<Rightarrow> jsstring \<Rightarrow> jsstring" where
  "opt_or v d = (case v of None \<Rightarrow> d | Some s \<Rightarrow> or_else s d)"

text \<open>The branch \<open>!authHeader?.startsWith("Bearer ")\<close> (lines 34 to 52).\<close>

definition without_bearer :: "env \<Rightarrow> request \<Rightarrow> outcome" where
  "without_bearer e req =
     (if \<not> isSupabaseConfigured e then Next (req\<lparr>user := Some mock_user\<rparr>)
      else Respond (fail_response 401 (js ''Authorization header required. Use: Bearer <token>'')))"

text \<open>
  The rest of the body, with \<open>token = authHeader.substring(7)\<close> (lines 54 to 101); a
  throw of \<open>supabase.auth.getUser\<close> is caught by the handler's \<open>catch\<close> (lines 102 to 108).
\<close>

definition with_token :: "env \<Rightarrow> backend \<Rightarrow> request \<Rightarrow> jsstring \<Rightarrow> outcome" where
  "with_token e b req token =
     (case (isSupabaseConfigured e, supabase e) of
        (True, Some c) \<Rightarrow>
          (case auth_getUser b c token of
             GetUserThrows x \<Rightarrow>
               Respond (fail_response 500 (js ''Authentication service unavailable''))
           | GetUserReturns u er \<Rightarrow>
               (case (er, u) of
                  (None, Some usr) \<Rightarrow>
                    Next (req\<lparr>user := Some \<lparr>user_id = au_id usr,
                                             email = opt_or (au_email usr) [],
                                             role = opt_or (au_role usr) (js ''authenticated'')\<rparr>\<rparr>)
                | _ \<Rightarrow> Respond (fail_response 401 (js ''Invalid or expired token''))))
      | _ \<Rightarrow>
          (if length (split token (of_char CHR ''.'')) \<noteq> 3
           then Respond (fail_response 401 (js ''Invalid token format''))
           else Next (req\<lparr>user := Some mock_user\<rparr>)))"

definition authenticate :: "env \<Rightarrow> backend \<Rightarrow> request \<Rightarrow> outcome" where
  "authenticate e b req =
     (case authorization req of
        None \<Rightarrow> without_bearer e req
      | Some authHeader \<Rightarrow>
          (if \<not> startsWith authHeader (js ''Bearer '') then without_bearer e req
           else with_token e b req (substring authHeader 7)))"

section \<open>Terminal handlers (error-handler.middleware.ts) and health (server.ts)\<close>

definition notFoundHandler :: "jsstring \<Rightarrow> jsstring \<Rightarrow> response" where
  "notFoundHandler method path =
     fail_response 404 (js ''Route '' @ method @ js '' '' @ path @ js '' not found'')"

text \<open>
  \<open>errorHandler\<close> ends with \<open>res.status(statusCode).json(response)\<close>, and the
  \<open>statusCode\<close> of an \<open>AppError\<close> is whatever its constructor was given. For a code
  outside 100 to 999 setting the status throws a RangeError, so the handler sends
  nothing: the result is \<open>None\<close>. In every other handler the status is a literal.
\<close>

definition errorHandler :: "env \<Rightarrow> js_error \<Rightarrow> response option" where
  "errorHandler e err =
     (let statusCode = (case err of AppError m c \<Rightarrow> c | Error m \<Rightarrow> 500) in
      if 100 \<le> statusCode \<and> statusCode \<le> 999
      then Some \<lparr>status = statusCode, success = False, data = None,
                 error = Some (if NODE_ENV e = Some (js ''production'') \<and> statusCode = 500
                               then js ''Internal server error'' else err_message err),
                 details = None\<rparr>
      else None)"

text \<open>
  \<open>app.get("/health")\<close>: \<open>res.json\<close> sends with the default status 200. The timestamp
  (\<open>new Date().toISOString()\<close>) is an input.
\<close>

definition health :: "env \<Rightarrow> jsstring \<Rightarrow> response" where
  "health e timestamp =
     \<lparr>status = 200, success = True,
      data = Some (HealthData (js ''healthy'') timestamp (opt_or (NODE_ENV e) (js ''development''))),
      error = None, details = None\<rparr>"

section \<open>Query log service (query-service.ts)\<close>

text \<open>
  A run of \<open>saveQuery\<close>: how the returned promise settles (\<open>Inl\<close> a rejection, \<open>Inr\<close>
  the value, \<open>None\<close> for \<open>null\<close>), the rows handed to \<open>insert\<close>, and the log calls.
\<close>

record save_run =
  settled :: "js_error + SavedQuery option"
  inserts :: "query_row list"
  save_logs :: "log_entry list"

definition saveQuery ::
  "env \<Rightarrow> backend \<Rightarrow> jsstring option \<Rightarrow> jsstring \<Rightarrow> jsstring \<Rightarrow> jsstring list \<Rightarrow> save_run" where
  "saveQuery e b userId queryText answerText resourceIds =
     (case (isSupabaseAdminConfigured e, supabaseAdmin e) of
        (True, Some admin) \<Rightarrow>
          (let row = \<lparr>row_user_id = userId, query_text = queryText,
                      answer_text = answerText, resources_returned = resourceIds\<rparr> in
           case db_insert_query b admin row of
             InsertThrows x \<Rightarrow>
               \<lparr>settled = Inr None, inserts = [row],
                save_logs = [(LogError, js ''Unexpected error saving query'')]\<rparr>
           | InsertReturns d (Some er) \<Rightarrow>
               \<lparr>settled = Inr None, inserts = [row],
                save_logs = [(LogError, js ''Failed to save query'')]\<rparr>
           | InsertReturns d None \<Rightarrow>
               \<lparr>settled = Inr d, inserts = [row],
                save_logs = [(LogInfo, js ''Query saved successfully'')]\<rparr>)
      | _ \<Rightarrow>
          \<lparr>settled = Inr None, inserts = [],
           save_logs = [(LogWarn, js ''Supabase admin not configured, skipping query save'')]\<rparr>)"

section \<open>Resource service (resource-service.ts)\<close>

text \<open>
  resource-service.ts exports \<open>generateMockAnswer\<close> and \<open>searchResources\<close>; the file is
  not among the sources, so both are modelled from what the spec says of them.
\<close>

text \<open>
  Modelled from the spec: the lower-casing step of \<open>generateMockAnswer\<close> ("lower-cases
  input"). It is modelled on the ASCII letters, which is where the keywords live.
\<close>

definition toLowerCase :: "jsstring \<Rightarrow> jsstring" where
  "toLowerCase s = map (\<lambda>c. if 0x41 \<le> c \<and> c \<le> 0x5A then c + 0x20 else c) s"

text \<open>
  Modelled from the spec: the canned strings of \<open>generateMockAnswer\<close>, whose texts the
  spec does not give, and the keyword rules after the two it names.
\<close>

record answer_table =
  ragAnswer :: jsstring
  neuralAnswer :: jsstring
  otherRules :: "(jsstring list \<times> jsstring) list"
  fallbackAnswer :: jsstring

text \<open>
  Modelled from the spec: the "ordered list of keyword predicates (e.g., contains "rag",
  contains "neural network"/"deep learning", etc.)" of \<open>generateMockAnswer\<close>, each with
  its canned explanation.
\<close>

definition rules :: "answer_table \<Rightarrow> (jsstring list \<times> jsstring) list" where
  "rules T =
     ([js ''rag''], ragAnswer T)
     # ([js ''neural network'', js ''deep learning''], neuralAnswer T)
     # otherRules T"

text \<open>
  Modelled from the spec: "returns the first matching canned explanation, or a generic
  fallback if none match" (\<open>generateMockAnswer\<close>).
\<close>

fun first_match :: "jsstring \<Rightarrow> (jsstring list \<times> jsstring) list \<Rightarrow> jsstring \<Rightarrow> jsstring" where
  "first_match q [] fallback = fallback"
| "first_match q ((ks, a) # rs) fallback =
     (if list_ex (includes_str q) ks then a else first_match q rs fallback)"

text \<open>
  Modelled from the spec: \<open>generateMockAnswer\<close> of resource-service.ts. The spec: "Pure
  function: lower-cases input, checks an ordered list of keyword predicates [...],
  returns the first matching canned explanation, or a generic fallback if none match.
  Deterministic, no side effects, no I/O."
\<close>

definition generateMockAnswer :: "answer_table \<Rightarrow> jsstring \<Rightarrow> jsstring" where
  "generateMockAnswer T query = first_match (toLowerCase query) (rules T) (fallbackAnswer T)"

text \<open>
  Modelled from the spec: the mapping of \<open>searchResources\<close> from a row of the resources
  table to the public shape \<open>{id, title, type, url}\<close>, "dropping internal-only fields".
\<close>

definition to_response :: "Resource \<Rightarrow> ResourceResponse" where
  "to_response r =
     \<lparr>res_id = r_id r, res_title = r_title r, res_type = r_type r, res_url = r_file_url r\<rparr>"

text \<open>
  A run of \<open>searchResources\<close>: what it returns (\<open>Inl\<close> would be a throw) and the log
  calls.
\<close>

record search_run =
  found :: "js_error + ResourceResponse list"
  search_logs :: "log_entry list"

text \<open>
  Modelled from the spec: \<open>searchResources\<close> of resource-service.ts. The spec: "If the
  backing store is unconfigured, return an empty sequence (no error). Otherwise perform a
  substring match against title/description (case-insensitive) or a tag-set overlap; cap
  result count; map internal rows to the public shape, dropping internal-only fields. Any
  query error is logged and converted to an empty result". The matching and the cap are
  the store's work, so the store's answer to the query is an input.
\<close>

definition searchResources :: "env \<Rightarrow> backend \<Rightarrow> jsstring \<Rightarrow> search_run" where
  "searchResources e b query =
     (case (isSupabaseConfigured e, supabase e) of
        (True, Some c) \<Rightarrow>
          (case db_search_resources b c query of
             SearchThrows x \<Rightarrow> \<lparr>found = Inr [], search_logs = [(LogError, err_message x)]\<rparr>
           | SearchReturns d (Some er) \<Rightarrow> \<lparr>found = Inr [], search_logs = [(LogError, er)]\<rparr>
           | SearchReturns d None \<Rightarrow>
               \<lparr>found = Inr (map to_response (case d of None \<Rightarrow> [] | Some rows \<Rightarrow> rows)),
                search_logs = []\<rparr>)
      | _ \<Rightarrow> \<lparr>found = Inr [], search_logs = []\<rparr>)"

section \<open>The controller (ask-jiji.controller.ts) and the route (ask-jiji.routes.ts)\<close>

text \<open>
  The two functions the controller imports from resource-service.ts are its parameters:
  each returns (\<open>Inr\<close>) or throws (\<open>Inl\<close>), and a throw reaches the \<open>catch\<close> of the
  controller.
\<close>

record services =
  answer_of :: "jsstring \<Rightarrow> js_error + jsstring"
  search_of :: "jsstring \<Rightarrow> js_error + ResourceResponse list"

text \<open>
  \<open>const { query } = req.body\<close> with \<open>body: AskJijiInput\<close>: the handler is typed for a
  body that is an object with a string \<open>query\<close>, which is what \<open>validateBody\<close> leaves.
  On any other body the first use of \<open>query\<close> as a string throws a TypeError.
\<close>

definition query_of :: "request \<Rightarrow> jsstring option" where
  "query_of req =
     (case body req of
        Some (JObj fs) \<Rightarrow> (case get_prop fs (js ''query'') of Some (JStr q) \<Rightarrow> Some q | _ \<Rightarrow> None)
      | _ \<Rightarrow> None)"

text \<open>\<open>req.user?.id || null\<close>\<close>

definition userId_of :: "request \<Rightarrow> jsstring option" where
  "userId_of req =
     (case user req of None \<Rightarrow> None
      | Some u \<Rightarrow> (if user_id u = [] then None else Some (user_id u)))"

text \<open>
  The arguments of the \<open>saveQuery\<close> call that the controller starts without awaiting it:
  \<open>(userId, query, answer, resourceIds)\<close>.
\<close>

type_synonym save_args = "jsstring option \<times> jsstring \<times> jsstring \<times> jsstring list"

text \<open>
  What the controller did: \<open>Inr\<close> the response it sent, \<open>Inl\<close> the error it passed to
  \<open>next\<close>; and the \<open>saveQuery\<close> call it started, if any.
\<close>

record handled =
  result :: "js_error + response"
  background :: "save_args option"

definition handleAskJiji :: "services \<Rightarrow> request \<Rightarrow> handled" where
  "handleAskJiji sv req =
     (case query_of req of
        None \<Rightarrow> \<lparr>result = Inl (Error (js ''TypeError'')), background = None\<rparr>
      | Some query \<Rightarrow>
          (let userId = userId_of req in
           case answer_of sv query of
             Inl x \<Rightarrow> \<lparr>result = Inl x, background = None\<rparr>
           | Inr answer \<Rightarrow>
               (case search_of sv query of
                  Inl x \<Rightarrow> \<lparr>result = Inl x, background = None\<rparr>
                | Inr resources \<Rightarrow>
                    (let resourceIds = map res_id resources in
                     \<lparr>result = Inr \<lparr>status = 200, success = True,
                                     data = Some (AskJijiData answer resources),
                                     error = None, details = None\<rparr>,
                      background = Some (userId, query, answer, resourceIds)\<rparr>))))"

text \<open>The services as resource-service.ts provides them.\<close>

definition resource_service :: "answer_table \<Rightarrow> env \<Rightarrow> backend \<Rightarrow> services" where
  "resource_service T e b =
     \<lparr>answer_of = (\<lambda>q. Inr (generateMockAnswer T q)),
      search_of = (\<lambda>q. found (searchResources e b q))\<rparr>"

text \<open>
  What the client receives: a response sent by one of the service's handlers, or, when
  \<open>errorHandler\<close> itself throws, the error page of the final handler built into Express
  (status 500, not an \<open>ApiResponse\<close>).
\<close>

datatype reply =
    Sent response
  | DefaultErrorPage

text \<open>An error passed to \<open>next\<close> goes to \<open>errorHandler\<close> (\<open>app.use(errorHandler)\<close>).\<close>

definition next_error :: "env \<Rightarrow> js_error \<Rightarrow> reply" where
  "next_error e x = (case errorHandler e x of Some r \<Rightarrow> Sent r | None \<Rightarrow> DefaultErrorPage)"

text \<open>
  \<open>router.post("/", authenticate, validateBody(askJijiSchema), handleAskJiji)\<close>, mounted
  at \<open>/ask-jiji\<close> before \<open>errorHandler\<close>: each stage runs when the one before called
  \<open>next()\<close>, and an error passed to \<open>next\<close> is answered by \<open>errorHandler\<close>.
\<close>

record served =
  sent :: reply
  started :: "save_args option"

definition finish :: "env \<Rightarrow> handled \<Rightarrow> served" where
  "finish e h =
     (case result h of
        Inr r \<Rightarrow> \<lparr>sent = Sent r, started = background h\<rparr>
      | Inl x \<Rightarrow> \<lparr>sent = next_error e x, started = background h\<rparr>)"

definition post_ask_jiji :: "env \<Rightarrow> backend \<Rightarrow> services \<Rightarrow> request \<Rightarrow> served" where
  "post_ask_jiji e b sv req =
     (case authenticate e b req of
        Respond r \<Rightarrow> \<lparr>sent = Sent r, started = None\<rparr>
      | NextError x \<Rightarrow> \<lparr>sent = next_error e x, started = None\<rparr>
      | Next req1 \<Rightarrow>
          (case validateBody askJijiSchema req1 of
             Respond r \<Rightarrow> \<lparr>sent = Sent r, started = None\<rparr>
           | NextError x \<Rightarrow> \<lparr>sent = next_error e x, started = None\<rparr>
           | Next req2 \<Rightarrow> finish e (handleAskJiji sv req2)))"

text \<open>The background write of a served request: \<open>saveQuery\<close> on the started call.\<close>

definition background_write :: "env \<Rightarrow> backend \<Rightarrow> save_args \<Rightarrow> save_run" where
  "background_write e b args =
     (case args of (userId, query, answer, resourceIds) \<Rightarrow>
        saveQuery e b userId query answer resourceIds)"

section \<open>The responses the service constructs\<close>

text \<open>
  One rule for each place of the source that builds a response body and sends it: the
  health route, the controller, the authentication and validation middlewares and the two
  terminal handlers. (\<open>validateQuery\<close> and \<open>validateParams\<close> are exported by
  validation.middleware.ts, but no route uses them.)
\<close>

inductive constructs :: "response \<Rightarrow> bool" where
  from_health: "constructs (health e timestamp)"
| from_controller: "result (handleAskJiji sv req) = Inr r \<Longrightarrow> constructs r"
| from_authenticate: "authenticate e b req = Respond r \<Longrightarrow> constructs r"
| from_validateBody: "validateBody schema req = Respond r \<Longrightarrow> constructs r"
| from_notFoundHandler: "constructs (notFoundHandler method path)"
| from_errorHandler: "errorHandler e err = Some r \<Longrightarrow> constructs r"

section \<open>Example inputs\<close>

text \<open>
  Concrete inputs for the examples below: an environment with nothing configured (mock
  mode), one with the database URL and both keys, the latter in production mode; a
  hosted backend whose every call throws; and a table of canned answers.
\<close>

definition mock_env :: env where
  "mock_env =
     \<lparr>SUPABASE_URL = None, SUPABASE_ANON_KEY = None, SUPABASE_SERVICE_ROLE_KEY = None,
      NODE_ENV = None\<rparr>"

definition live_env :: env where
  "live_env =
     \<lparr>SUPABASE_URL = Some (js ''https://x.supabase.co''), SUPABASE_ANON_KEY = Some (js ''anon''),
      SUPABASE_SERVICE_ROLE_KEY = Some (js ''service''), NODE_ENV = None\<rparr>"

definition production_env :: env where
  "production_env = live_env\<lparr>NODE_ENV := Some (js ''production'')\<rparr>"

definition failing_backend :: backend where
  "failing_backend =
     \<lparr>auth_getUser = (\<lambda>c t. GetUserThrows (Error (js ''fetch failed''))),
      db_insert_query = (\<lambda>c r. InsertThrows (Error (js ''fetch failed''))),
      db_search_resources = (\<lambda>c q. SearchThrows (Error (js ''fetch failed'')))\<rparr>"

definition sample_answers :: answer_table where
  "sample_answers =
     \<lparr>ragAnswer = js ''Retrieval-Augmented Generation (RAG) combines search with LLMs'',
      neuralAnswer = js ''Neural networks are layers of weighted units'',
      otherRules = [([js ''machine learning''], js ''Machine learning fits models to data'')],
      fallbackAnswer = js ''I can help you learn about AI topics''\<rparr>"

text \<open>
  An environment with the URL and the service-role key but no anonymous key (so the
  identity backend is unconfigured and the log writer is configured), and services that
  find two resources.
\<close>

definition log_only_env :: env where
  "log_only_env =
     \<lparr>SUPABASE_URL = Some (js ''https://x.supabase.co''), SUPABASE_ANON_KEY = None,
      SUPABASE_SERVICE_ROLE_KEY = Some (js ''service''), NODE_ENV = None\<rparr>"

definition two_resources :: "ResourceResponse list" where
  "two_resources =
     [\<lparr>res_id = js ''r1'', res_title = js ''Introduction to RAG'', res_type = Ppt,
       res_url = js ''https://x.supabase.co/rag-intro.pptx''\<rparr>,
      \<lparr>res_id = js ''r2'', res_title = js ''RAG Tutorial Video'', res_type = Video,
       res_url = js ''https://x.supabase.co/rag-tutorial.mp4''\<rparr>]"

definition sample_services :: services where
  "sample_services =
     \<lparr>answer_of = (\<lambda>q. Inr (generateMockAnswer sample_answers q)),
      search_of = (\<lambda>q. Inr two_resources)\<rparr>"

text \<open>
  A query of \<open>n\<close> characters outside the Basic Multilingual Plane (U+1F600, the
  surrogate pair D83D DE00), which is \<open>2 * n\<close> code units.
\<close>

definition astral_query :: "nat \<Rightarrow> jsstring" where
  "astral_query n = concat (replicate n [0xD83D, 0xDE00])"

definition request_with :: "jsstring option \<Rightarrow> json option \<Rightarrow> request" where
  "request_with h b = \<lparr>authorization = h, body = b, user = None\<rparr>"

section \<open>Facts about strings and the query schema\<close>

lemma field_query: "or_else (join (js ''.'') [js ''query'']) (js ''body'') = js ''query''"
  by (simp add: or_else_def js_def)

lemma trim_all_ws: "\<forall>c\<in>set s. isWhiteSpace c \<Longrightarrow> trim s = []"
proof -
  assume "\<forall>c\<in>set s. isWhiteSpace c"
  then have "dropWhile isWhiteSpace s = []" by simp
  then show ?thesis by (simp add: trim_def del: dropWhile_eq_Nil_conv)
qed

lemma trim_nonempty_iff: "trim s \<noteq> [] \<longleftrightarrow> (\<exists>c\<in>set s. \<not> isWhiteSpace c)"
proof
  assume "trim s \<noteq> []"
  then show "\<exists>c\<in>set s. \<not> isWhiteSpace c" using trim_all_ws by blast
next
  assume "\<exists>c\<in>set s. \<not> isWhiteSpace c"
  then have a: "dropWhile isWhiteSpace s \<noteq> []" by (simp add: dropWhile_eq_Nil_conv)
  then obtain c where c: "c \<in> set (dropWhile isWhiteSpace s)" "\<not> isWhiteSpace c"
    by (metis hd_dropWhile hd_in_set)
  then have "dropWhile isWhiteSpace (rev (dropWhile isWhiteSpace s)) \<noteq> []"
    by (auto simp: dropWhile_eq_Nil_conv)
  then show "trim s \<noteq> []" by (simp add: trim_def)
qed

lemma trim_unchanged:
  assumes "s \<noteq> []" "\<not> isWhiteSpace (hd s)" "\<not> isWhiteSpace (last s)"
  shows "trim s = s"
proof -
  have "dropWhile isWhiteSpace s = s" using assms by (cases s) auto
  moreover have "dropWhile isWhiteSpace (rev s) = rev s"
    using assms by (cases "rev s") (auto simp: hd_rev [symmetric])
  ultimately show ?thesis by (simp add: trim_def)
qed

lemma code_points_pos: "s \<noteq> [] \<Longrightarrow> 1 \<le> code_points s"
  by (induction s rule: code_points.induct) auto

lemma code_points_zero_iff: "code_points s = 0 \<longleftrightarrow> s = []"
  using code_points_pos [of s] by (cases s) auto

lemma code_points_le_length: "code_points s \<le> length s"
  by (induction s rule: code_points.induct) auto

lemma code_points_units:
  "\<forall>c\<in>set s. \<not> isHighSurrogate c \<Longrightarrow> code_points s = length s"
  by (induction s rule: code_points.induct) auto

lemma code_points_append_ge: "code_points xs \<le> code_points (xs @ ys)"
proof (induction xs rule: code_points.induct)
  case 1
  then show ?case by simp
next
  case (2 c)
  then show ?case by (cases ys) auto
next
  case (3 c d cs)
  then show ?case by auto
qed

lemma code_points_Cons:
  "code_points cs \<le> code_points (c # cs) \<and> code_points (c # cs) \<le> Suc (code_points cs)"
proof (induction cs arbitrary: c)
  case Nil
  then show ?case by simp
next
  case (Cons d cs)
  from Cons [of d] show ?case by auto
qed

lemma code_points_Cons_le: "code_points cs \<le> code_points (c # cs)"
  using code_points_Cons by blast

lemma code_points_dropWhile_le: "code_points (dropWhile P s) \<le> code_points s"
proof (induction s)
  case Nil
  then show ?case by simp
next
  case (Cons c cs)
  then show ?case using code_points_Cons_le [of cs c] by (auto simp del: code_points.simps)
qed

lemma code_points_trim_le: "code_points (trim s) \<le> code_points s"
proof -
  let ?d = "dropWhile isWhiteSpace s"
  have "rev ?d = takeWhile isWhiteSpace (rev ?d) @ dropWhile isWhiteSpace (rev ?d)"
    by simp
  then have "?d = trim s @ rev (takeWhile isWhiteSpace (rev ?d))"
    unfolding trim_def by (metis rev_append rev_rev_ident)
  then have "code_points (trim s) \<le> code_points ?d"
    using code_points_append_ge by metis
  then show ?thesis using code_points_dropWhile_le [of isWhiteSpace s] by linarith
qed

lemma query_checks_Nil_iff:
  "query_checks s = [] \<longleftrightarrow>
     1 \<le> code_points s \<and> code_points s \<le> 1000 \<and> (\<exists>c\<in>set s. \<not> isWhiteSpace c)"
  using trim_nonempty_iff [of s] by (auto simp: query_checks_def)

lemma query_checks_field:
  "d \<in> set (map to_detail (query_checks s)) \<Longrightarrow> field d = js ''query''"
  using field_query by (auto simp: query_checks_def to_detail_def split: if_splits)

section \<open>Validation failures\<close>

text \<open>
  A body that is not an object (an array, or none) is rejected with one entry for the
  field \<open>body\<close>: the issue is at the root, and \<open>validateBody\<close> names the empty path
  \<open>body\<close>. An object whose \<open>query\<close> is missing or fails a check is rejected with
  entries for the field \<open>query\<close>.
\<close>

lemma validateBody_rejects_non_object:
  assumes "\<forall>fs. body req \<noteq> Some (JObj fs)"
  shows "\<exists>m. validateBody askJijiSchema req =
           Respond \<lparr>status = 400, success = False, data = None,
                    error = Some (js ''Validation failed: body: '' @ m),
                    details = Some [\<lparr>field = js ''body'', message = m,
                                     code = js ''invalid_type''\<rparr>]\<rparr>"
proof -
  have p: "askJijiSchema (body req) =
          ZodError [\<lparr>issue_path = [],
                     issue_message = js ''Invalid input: expected object, received ''
                                     @ received (body req),
                     issue_code = js ''invalid_type''\<rparr>]"
    using assms by (auto simp: askJijiSchema_def split: option.splits json.splits)
  have "validateBody askJijiSchema req =
          Respond \<lparr>status = 400, success = False, data = None,
                   error = Some (summary [\<lparr>field = js ''body'',
                       message = js ''Invalid input: expected object, received ''
                                 @ received (body req),
                       code = js ''invalid_type''\<rparr>]),
                   details = Some [\<lparr>field = js ''body'',
                       message = js ''Invalid input: expected object, received ''
                                 @ received (body req),
                       code = js ''invalid_type''\<rparr>]\<rparr>"
    by (simp add: validateBody_def p to_detail_def or_else_def Let_def)
  then show ?thesis by (simp add: summary_def js_def)
qed

lemma validateBody_rejects_bad_object:
  assumes obj: "body req = Some (JObj fs)"
    and bad: "get_prop fs (js ''query'') = None
      \<or> (\<exists>s. get_prop fs (js ''query'') = Some (JStr s)
            \<and> (s = [] \<or> (\<forall>c\<in>set s. isWhiteSpace c) \<or> code_points s > 1000))"
  shows "\<exists>ds. validateBody askJijiSchema req =
           Respond \<lparr>status = 400, success = False, data = None,
                    error = Some (js ''Validation failed: '' @
                      join (js '', '') (map (\<lambda>d. field d @ js '': '' @ message d) ds)),
                    details = Some ds\<rparr>
         \<and> ds \<noteq> [] \<and> (\<forall>d\<in>set ds. field d = js ''query'')"
proof -
  from bad consider
      (missing) "get_prop fs (js ''query'') = None"
    | (str) s where "get_prop fs (js ''query'') = Some (JStr s)" "query_checks s \<noteq> []"
    using query_checks_Nil_iff by fastforce
  then show ?thesis
  proof cases
    case missing
    with obj show ?thesis
      using field_query by (simp add: validateBody_def askJijiSchema_def summary_def to_detail_def)
  next
    case str
    with obj have "validateBody askJijiSchema req =
           Respond \<lparr>status = 400, success = False, data = None,
                    error = Some (summary (map to_detail (query_checks s))),
                    details = Some (map to_detail (query_checks s))\<rparr>"
      by (simp add: validateBody_def askJijiSchema_def Let_def)
    moreover have "map to_detail (query_checks s) \<noteq> []" using str by simp
    moreover have "\<forall>d\<in>set (map to_detail (query_checks s)). field d = js ''query''"
      using query_checks_field by blast
    ultimately show ?thesis unfolding summary_def by blast
  qed
qed

text \<open>
  Claim C1, as the spec states it, promises an entry for the field \<open>query\<close> for every
  body in which \<open>query\<close> is missing. In the array body \<open>[]\<close> there is no \<open>query\<close>, and
  the 400 response carries the single entry \<open>body\<close>.
\<close>

theorem validateBody_array_body:
  "validateBody askJijiSchema (request_with None (Some (JArr []))) =
     Respond \<lparr>status = 400, success = False, data = None,
              error = Some (js ''Validation failed: body: Invalid input: expected object, received array''),
              details = Some [\<lparr>field = js ''body'',
                               message = js ''Invalid input: expected object, received array'',
                               code = js ''invalid_type''\<rparr>]\<rparr>
   \<and> js ''body'' \<noteq> js ''query''"
  by (simp add: validateBody_def askJijiSchema_def request_with_def to_detail_def or_else_def
        summary_def js_def)

text \<open>
  Claim C1, amended. For every JSON request body that is an object in which \<open>query\<close>
  is missing, or is a string that is empty, whitespace-only or longer than 1000
  characters, the validation middleware sends a response (so the next stage is not
  called) with status 400 and \<open>success: false\<close>, whose \<open>details\<close> is a non-empty list of
  \<open>{field, message, code}\<close> entries, each for the field \<open>query\<close>, and whose \<open>error\<close> is
  the summary \<open>"Validation failed: "\<close> followed by the \<open>"field: message"\<close> of the entries
  joined by \<open>", "\<close>; for a body that is not an object the response is the same except
  that the entries are for the field \<open>body\<close>.
\<close>

theorem validateBody_rejects_bad_query:
  assumes "(\<forall>fs. body req \<noteq> Some (JObj fs))
     \<or> (\<exists>fs. body req = Some (JObj fs)
           \<and> (get_prop fs (js ''query'') = None
              \<or> (\<exists>s. get_prop fs (js ''query'') = Some (JStr s)
                    \<and> (s = [] \<or> (\<forall>c\<in>set s. isWhiteSpace c) \<or> code_points s > 1000))))"
  shows "\<exists>ds. validateBody askJijiSchema req =
           Respond \<lparr>status = 400, success = False, data = None,
                    error = Some (js ''Validation failed: '' @
                      join (js '', '') (map (\<lambda>d. field d @ js '': '' @ message d) ds)),
                    details = Some ds\<rparr>
         \<and> ds \<noteq> []
         \<and> (\<forall>d\<in>set ds. field d =
               (if (\<exists>fs. body req = Some (JObj fs)) then js ''query'' else js ''body''))"
proof (cases "\<exists>fs. body req = Some (JObj fs)")
  case True
  then obtain fs where obj: "body req = Some (JObj fs)" by blast
  with assms have bad: "get_prop fs (js ''query'') = None
      \<or> (\<exists>s. get_prop fs (js ''query'') = Some (JStr s)
            \<and> (s = [] \<or> (\<forall>c\<in>set s. isWhiteSpace c) \<or> code_points s > 1000))"
    by auto
  from validateBody_rejects_bad_object [OF obj bad] True show ?thesis by simp
next
  case False
  then have "\<forall>fs. body req \<noteq> Some (JObj fs)" by blast
  from validateBody_rejects_non_object [OF this] obtain m where
    "validateBody askJijiSchema req =
           Respond \<lparr>status = 400, success = False, data = None,
                    error = Some (js ''Validation failed: body: '' @ m),
                    details = Some [\<lparr>field = js ''body'', message = m,
                                     code = js ''invalid_type''\<rparr>]\<rparr>" by blast
  moreover have "js ''Validation failed: body: '' @ m =
       js ''Validation failed: '' @ join (js '', '')
          (map (\<lambda>d. field d @ js '': '' @ message d)
             [\<lparr>field = js ''body'', message = m, code = js ''invalid_type''\<rparr>])"
    by (simp add: js_def)
  ultimately show ?thesis using False by auto
qed

text \<open>The theorem at the body \<open>{"query": "   "}\<close> and at the body \<open>[]\<close>.\<close>

theorem validateBody_rejects_bad_query_witness:
  "body (request_with None (Some (JObj [(js ''query'', JStr (js ''   ''))])))
     = Some (JObj [(js ''query'', JStr (js ''   ''))])
   \<and> get_prop [(js ''query'', JStr (js ''   ''))] (js ''query'') = Some (JStr (js ''   ''))
   \<and> list_all isWhiteSpace (js ''   '')
   \<and> (\<exists>ds. validateBody askJijiSchema
              (request_with None (Some (JObj [(js ''query'', JStr (js ''   ''))]))) =
           Respond \<lparr>status = 400, success = False, data = None,
                    error = Some (js ''Validation failed: '' @
                      join (js '', '') (map (\<lambda>d. field d @ js '': '' @ message d) ds)),
                    details = Some ds\<rparr>
         \<and> ds \<noteq> [] \<and> (\<forall>d\<in>set ds. field d = js ''query''))
   \<and> body (request_with None (Some (JArr []))) = Some (JArr [])
   \<and> (\<exists>ds. validateBody askJijiSchema (request_with None (Some (JArr []))) =
           Respond \<lparr>status = 400, success = False, data = None,
                    error = Some (js ''Validation failed: '' @
                      join (js '', '') (map (\<lambda>d. field d @ js '': '' @ message d) ds)),
                    details = Some ds\<rparr>
         \<and> ds \<noteq> [] \<and> (\<forall>d\<in>set ds. field d = js ''body''))"
proof -
  let ?req = "request_with None (Some (JObj [(js ''query'', JStr (js ''   ''))]))"
  let ?arr = "request_with None (Some (JArr []))"
  have h1: "body ?req = Some (JObj [(js ''query'', JStr (js ''   ''))])"
    by (simp add: request_with_def)
  have h2: "get_prop [(js ''query'', JStr (js ''   ''))] (js ''query'') = Some (JStr (js ''   ''))"
    by (simp add: get_prop_def)
  have h3: "\<forall>c\<in>set (js ''   ''). isWhiteSpace c"
    by (simp add: js_def isWhiteSpace_def)
  have a1: "body ?arr = Some (JArr [])" by (simp add: request_with_def)
  from h1 h2 h3 have h: "(\<forall>fs. body ?req \<noteq> Some (JObj fs))
     \<or> (\<exists>fs. body ?req = Some (JObj fs)
           \<and> (get_prop fs (js ''query'') = None
              \<or> (\<exists>s. get_prop fs (js ''query'') = Some (JStr s)
                    \<and> (s = [] \<or> (\<forall>c\<in>set s. isWhiteSpace c) \<or> code_points s > 1000))))"
    by blast
  from a1 have a: "(\<forall>fs. body ?arr \<noteq> Some (JObj fs))
     \<or> (\<exists>fs. body ?arr = Some (JObj fs)
           \<and> (get_prop fs (js ''query'') = None
              \<or> (\<exists>s. get_prop fs (js ''query'') = Some (JStr s)
                    \<and> (s = [] \<or> (\<forall>c\<in>set s. isWhiteSpace c) \<or> code_points s > 1000))))"
    by simp
  show ?thesis
    using h1 h2 h3 a1 validateBody_rejects_bad_query [OF h] validateBody_rejects_bad_query [OF a]
    by (simp add: list_all_iff)
qed

section \<open>Accepted bodies\<close>

lemma trim_padded: "trim (js ''a'' @ replicate n 0x20) = js ''a''"
proof -
  have ws: "isWhiteSpace 0x20" by (simp add: isWhiteSpace_def)
  have a: "\<not> isWhiteSpace 97" by (simp add: isWhiteSpace_def)
  have "dropWhile isWhiteSpace (replicate n (0x20 :: code_unit) @ [97]) = [97]"
    using ws a by (induction n) simp_all
  then show ?thesis using a by (simp add: trim_def js_def)
qed

lemma code_points_padded: "code_points (js ''a'' @ replicate n 0x20) = Suc n"
proof -
  have "\<forall>c\<in>set (js ''a'' @ replicate n (0x20 :: code_unit)). \<not> isHighSurrogate c"
    by (auto simp: js_def isHighSurrogate_def)
  then have "code_points (js ''a'' @ replicate n 0x20) = length (js ''a'' @ replicate n (0x20 :: code_unit))"
    by (rule code_points_units)
  then show ?thesis by (simp add: js_def)
qed

text \<open>
  Claim C3, as the spec states it, bounds the length after trimming. The schema applies
  \<open>min(1)\<close> and \<open>max(1000)\<close> before \<open>trim()\<close>: the query \<open>"a"\<close> followed by 1000 spaces
  has length 1 after trimming and is rejected with \<open>too_big\<close>.
\<close>

theorem validateBody_bound_is_before_trim:
  "length (trim (js ''a'' @ replicate 1000 0x20)) = 1
   \<and> validateBody askJijiSchema
       (request_with None (Some (JObj [(js ''query'', JStr (js ''a'' @ replicate 1000 0x20))])))
     = Respond \<lparr>status = 400, success = False, data = None,
                error = Some (js ''Validation failed: query: Query cannot exceed 1000 characters''),
                details = Some [\<lparr>field = js ''query'',
                                 message = js ''Query cannot exceed 1000 characters'',
                                 code = js ''too_big''\<rparr>]\<rparr>"
proof -
  have t: "trim (js ''a'' @ replicate 1000 0x20) = js ''a''" by (rule trim_padded)
  have l: "code_points (js ''a'' @ replicate 1000 0x20) = 1001"
    using code_points_padded [of 1000] by simp
  have q: "query_checks (js ''a'' @ replicate 1000 0x20) =
     [\<lparr>issue_path = [js ''query''],
             issue_message = js ''Query cannot exceed 1000 characters'',
             issue_code = js ''too_big''\<rparr>]"
    unfolding query_checks_def t l by (simp add: js_def)
  have f: "to_detail \<lparr>issue_path = [js ''query''],
             issue_message = js ''Query cannot exceed 1000 characters'',
             issue_code = js ''too_big''\<rparr> = \<lparr>field = js ''query'',
                                 message = js ''Query cannot exceed 1000 characters'',
                                 code = js ''too_big''\<rparr>"
    using field_query by (simp add: to_detail_def)
  have "validateBody askJijiSchema
       (request_with None (Some (JObj [(js ''query'', JStr (js ''a'' @ replicate 1000 0x20))])))
     = Respond \<lparr>status = 400, success = False, data = None,
                error = Some (summary [\<lparr>field = js ''query'',
                                 message = js ''Query cannot exceed 1000 characters'',
                                 code = js ''too_big''\<rparr>]),
                details = Some [\<lparr>field = js ''query'',
                                 message = js ''Query cannot exceed 1000 characters'',
                                 code = js ''too_big''\<rparr>]\<rparr>"
    by (simp add: validateBody_def askJijiSchema_def request_with_def get_prop_def q f Let_def)
  moreover have "summary [\<lparr>field = js ''query'',
                                 message = js ''Query cannot exceed 1000 characters'',
                                 code = js ''too_big''\<rparr>] = js ''Validation failed: query: Query cannot exceed 1000 characters''"
    by (simp add: summary_def js_def)
  ultimately show ?thesis using t by (simp add: js_def)
qed

text \<open>
  Claim C3, amended. A body that is an object whose \<open>query\<close> is the string \<open>s\<close> is
  accepted by the validation middleware exactly when \<open>s\<close> as received has between 1 and
  1000 characters (code points) and is not whitespace-only (its trimmed form is not
  empty); on acceptance the request body is replaced by the parsed value
  \<open>{query: trim s}\<close>, whose \<open>query\<close> then has between 1 and 1000 characters.
\<close>

theorem validateBody_accepts_iff:
  assumes obj: "body req = Some (JObj fs)"
    and str: "get_prop fs (js ''query'') = Some (JStr s)"
  shows "((\<exists>req'. validateBody askJijiSchema req = Next req')
            \<longleftrightarrow> 1 \<le> code_points s \<and> code_points s \<le> 1000 \<and> trim s \<noteq> [])
       \<and> (\<forall>req'. validateBody askJijiSchema req = Next req' \<longrightarrow>
             req' = req\<lparr>body := Some (JObj [(js ''query'', JStr (trim s))])\<rparr>
             \<and> 1 \<le> code_points (trim s) \<and> code_points (trim s) \<le> 1000)"
proof (cases "query_checks s = []")
  case True
  then have ok: "1 \<le> code_points s \<and> code_points s \<le> 1000 \<and> trim s \<noteq> []"
    using query_checks_Nil_iff trim_nonempty_iff by blast
  have "validateBody askJijiSchema req =
          Next (req\<lparr>body := Some (JObj [(js ''query'', JStr (trim s))])\<rparr>)"
    using obj str True by (simp add: validateBody_def askJijiSchema_def)
  moreover have "1 \<le> code_points (trim s)" using ok code_points_pos by blast
  moreover have "code_points (trim s) \<le> 1000"
    using ok code_points_trim_le [of s] by linarith
  ultimately show ?thesis using ok by simp
next
  case False
  then have bad: "\<not> (1 \<le> code_points s \<and> code_points s \<le> 1000 \<and> trim s \<noteq> [])"
    using query_checks_Nil_iff trim_nonempty_iff by blast
  have "\<exists>r. validateBody askJijiSchema req = Respond r"
    using obj str False by (simp add: validateBody_def askJijiSchema_def Let_def)
  then show ?thesis using bad by auto
qed

text \<open>The theorem at the body \<open>{"query": "  Explain RAG "}\<close>.\<close>

theorem validateBody_accepts_iff_witness:
  "body (request_with None (Some (JObj [(js ''query'', JStr (js ''  Explain RAG ''))])))
     = Some (JObj [(js ''query'', JStr (js ''  Explain RAG ''))])
   \<and> get_prop [(js ''query'', JStr (js ''  Explain RAG ''))] (js ''query'')
     = Some (JStr (js ''  Explain RAG ''))
   \<and> validateBody askJijiSchema
       (request_with None (Some (JObj [(js ''query'', JStr (js ''  Explain RAG ''))])))
     = Next (request_with None (Some (JObj [(js ''query'', JStr (js ''Explain RAG''))])))"
proof -
  have h1: "body (request_with None (Some (JObj [(js ''query'', JStr (js ''  Explain RAG ''))])))
     = Some (JObj [(js ''query'', JStr (js ''  Explain RAG ''))])"
    by (simp add: request_with_def)
  have h2: "get_prop [(js ''query'', JStr (js ''  Explain RAG ''))] (js ''query'')
     = Some (JStr (js ''  Explain RAG ''))"
    by (simp add: get_prop_def)
  have t: "trim (js ''  Explain RAG '') = js ''Explain RAG''"
    by (simp add: trim_def js_def isWhiteSpace_def)
  have l: "code_points (js ''  Explain RAG '') = 14"
    by (simp add: js_def isHighSurrogate_def)
  from validateBody_accepts_iff [OF h1 h2] t l
  have "\<exists>req'. validateBody askJijiSchema
       (request_with None (Some (JObj [(js ''query'', JStr (js ''  Explain RAG ''))]))) = Next req'"
    by (simp add: js_def)
  with validateBody_accepts_iff [OF h1 h2] t
  show ?thesis using h1 h2 by (auto simp: request_with_def)
qed

text \<open>
  A query of 501 characters outside the Basic Multilingual Plane has 1002 code units and
  is accepted: the bound counts characters.
\<close>

lemma astral_length: "length (astral_query n) = 2 * n"
  by (induction n) (simp_all add: astral_query_def)

lemma astral_code_points: "code_points (astral_query n) = n"
  by (induction n) (simp_all add: astral_query_def isHighSurrogate_def isLowSurrogate_def)

lemma astral_trim: "trim (astral_query (Suc n)) = astral_query (Suc n)"
proof (rule trim_unchanged)
  show "astral_query (Suc n) \<noteq> []" by (simp add: astral_query_def)
  show "\<not> isWhiteSpace (hd (astral_query (Suc n)))"
    by (simp add: astral_query_def isWhiteSpace_def)
  have "astral_query (Suc n) = astral_query n @ [0xD83D, 0xDE00]"
    by (induction n) (simp_all add: astral_query_def)
  then show "\<not> isWhiteSpace (last (astral_query (Suc n)))"
    by (simp add: isWhiteSpace_def)
qed

lemma validateBody_accepts_astral:
  "length (astral_query 501) = 1002
   \<and> code_points (astral_query 501) = 501
   \<and> validateBody askJijiSchema
       (request_with None (Some (JObj [(js ''query'', JStr (astral_query 501))])))
     = Next (request_with None (Some (JObj [(js ''query'', JStr (astral_query 501))])))"
proof -
  have t: "trim (astral_query 501) = astral_query 501"
    using astral_trim [of 500] by simp
  have n: "astral_query 501 \<noteq> []"
    using astral_length [of 501] by auto
  have "query_checks (astral_query 501) = []"
    unfolding query_checks_def t astral_code_points using n by simp
  then show ?thesis
    using t by (simp add: validateBody_def askJijiSchema_def request_with_def get_prop_def
                  astral_length astral_code_points)
qed

section \<open>Requests without a bearer header\<close>

text \<open>
  Claim C4. For every request whose Authorization header is absent or does not start
  with \<open>"Bearer "\<close>: if the identity backend is configured the middleware sends 401 with
  the error \<open>"Authorization header required. Use: Bearer <token>"\<close> (and does not call
  the next stage); if it is unconfigured the middleware attaches the mock identity
  \<open>{id: mock-user-id, email: mock@example.com, role: authenticated}\<close> and calls the next
  stage.
\<close>

theorem authenticate_without_bearer:
  assumes "authorization req = None
     \<or> (\<exists>h. authorization req = Some h \<and> \<not> startsWith h (js ''Bearer ''))"
  shows "authenticate e b req =
     (if isSupabaseConfigured e
      then Respond \<lparr>status = 401, success = False, data = None,
                    error = Some (js ''Authorization header required. Use: Bearer <token>''),
                    details = None\<rparr>
      else Next (req\<lparr>user := Some \<lparr>user_id = js ''mock-user-id'',
                                    email = js ''mock@example.com'',
                                    role = js ''authenticated''\<rparr>\<rparr>))"
  using assms
  by (auto simp: authenticate_def without_bearer_def fail_response_def mock_user_def)

text \<open>The theorem at the header \<open>"Basic abc"\<close>, with and without a configured backend.\<close>

theorem authenticate_without_bearer_witness:
  "authorization (request_with (Some (js ''Basic abc'')) None) = Some (js ''Basic abc'')
   \<and> startsWith (js ''Basic abc'') (js ''Bearer '') = False
   \<and> isSupabaseConfigured live_env
   \<and> authenticate live_env failing_backend (request_with (Some (js ''Basic abc'')) None) =
       Respond \<lparr>status = 401, success = False, data = None,
                error = Some (js ''Authorization header required. Use: Bearer <token>''),
                details = None\<rparr>
   \<and> isSupabaseConfigured mock_env = False
   \<and> authenticate mock_env failing_backend (request_with (Some (js ''Basic abc'')) None) =
       Next \<lparr>authorization = Some (js ''Basic abc''), body = None,
             user = Some \<lparr>user_id = js ''mock-user-id'', email = js ''mock@example.com'',
                          role = js ''authenticated''\<rparr>\<rparr>"
proof -
  have h1: "authorization (request_with (Some (js ''Basic abc'')) None) = Some (js ''Basic abc'')"
    by (simp add: request_with_def)
  have h2: "\<not> startsWith (js ''Basic abc'') (js ''Bearer '')"
    by (simp add: startsWith_def js_def)
  have h: "authorization (request_with (Some (js ''Basic abc'')) None) = None
     \<or> (\<exists>h. authorization (request_with (Some (js ''Basic abc'')) None) = Some h
          \<and> \<not> startsWith h (js ''Bearer ''))"
    using h1 h2 by blast
  have c1: "isSupabaseConfigured live_env"
    by (simp add: isSupabaseConfigured_def live_env_def truthy_def js_def)
  have c2: "\<not> isSupabaseConfigured mock_env"
    by (simp add: isSupabaseConfigured_def mock_env_def truthy_def)
  show ?thesis
    using h1 h2 c1 c2
      authenticate_without_bearer [OF h, of live_env failing_backend]
      authenticate_without_bearer [OF h, of mock_env failing_backend]
    by (simp add: request_with_def)
qed

section \<open>Mock mode\<close>

lemma supabase_None: "\<not> isSupabaseConfigured e \<Longrightarrow> supabase e = None"
  by (simp add: supabase_def split: option.splits)

lemma supabaseAdmin_None_iff: "supabaseAdmin e = None \<longleftrightarrow> \<not> isSupabaseAdminConfigured e"
  by (auto simp: supabaseAdmin_def isSupabaseAdminConfigured_def truthy_def split: option.splits)

lemma with_token_mock:
  "\<not> isSupabaseConfigured e \<Longrightarrow>
   with_token e b req token =
     (if length (split token (of_char CHR ''.'')) \<noteq> 3
      then Respond (fail_response 401 (js ''Invalid token format''))
      else Next (req\<lparr>user := Some mock_user\<rparr>))"
  by (simp add: with_token_def)

lemma split_abc: "length (split (substring (js ''Bearer a.b.c'') 7) (of_char CHR ''.'')) = 3"
  by (simp add: split_def substring_def js_def)

lemma explain_rag: "generateMockAnswer T (js ''Explain RAG'') = ragAnswer T"
  by (simp add: generateMockAnswer_def rules_def toLowerCase_def js_def startsWith_def)

text \<open>
  Claim C2, as the spec states it, lets every header through in mock mode. The
  middleware checks the shape of a bearer token also in mock mode (lines 57 to 67): the
  header \<open>"Bearer abc"\<close> has one dot-separated segment, and the request is answered 401
  \<open>"Invalid token format"\<close> although its body is valid.
\<close>

theorem mock_mode_rejects_malformed_token:
  "isSupabaseConfigured mock_env = False
   \<and> sent (post_ask_jiji mock_env failing_backend
              (resource_service sample_answers mock_env failing_backend)
              (request_with (Some (js ''Bearer abc''))
                 (Some (JObj [(js ''query'', JStr (js ''Explain RAG''))])))) =
       Sent \<lparr>status = 401, success = False, data = None,
             error = Some (js ''Invalid token format''), details = None\<rparr>"
proof -
  have mock: "\<not> isSupabaseConfigured mock_env"
    by (simp add: isSupabaseConfigured_def mock_env_def truthy_def)
  have "length (split (substring (js ''Bearer abc'') 7) (of_char CHR ''.'')) = 1"
    by (simp add: split_def substring_def js_def)
  moreover have "startsWith (js ''Bearer abc'') (js ''Bearer '')"
    by (simp add: startsWith_def js_def)
  ultimately have "authenticate mock_env failing_backend
          (request_with (Some (js ''Bearer abc''))
                 (Some (JObj [(js ''query'', JStr (js ''Explain RAG''))]))) =
        Respond (fail_response 401 (js ''Invalid token format''))"
    using mock by (simp add: authenticate_def with_token_mock request_with_def)
  then show ?thesis using mock by (simp add: post_ask_jiji_def fail_response_def)
qed

text \<open>
  Claim C2, amended. When the identity backend is unconfigured (mock mode), every
  request to \<open>/ask-jiji\<close> whose Authorization header is absent, or does not start with
  \<open>"Bearer "\<close>, or carries a token of exactly three dot-separated segments, is treated
  as authenticated with the fixed mock identity; with a valid body (a string \<open>query\<close> of
  1 to 1000 characters that is not whitespace-only), and the answer generator and the
  resource search returning \<open>a\<close> and \<open>rs\<close> on the trimmed query, the route answers 200
  with \<open>{success: true, data: {answer: a, resources: rs}}\<close>.
\<close>

theorem mock_mode_authenticates:
  assumes mock: "\<not> isSupabaseConfigured e"
    and hdr: "authorization req = None
      \<or> (\<exists>h. authorization req = Some h
            \<and> (\<not> startsWith h (js ''Bearer '')
               \<or> length (split (substring h 7) (of_char CHR ''.'')) = 3))"
    and obj: "body req = Some (JObj fs)"
    and str: "get_prop fs (js ''query'') = Some (JStr s)"
    and valid: "1 \<le> code_points s" "code_points s \<le> 1000" "trim s \<noteq> []"
    and ans: "answer_of sv (trim s) = Inr a"
    and srch: "search_of sv (trim s) = Inr rs"
  shows "authenticate e b req =
           Next (req\<lparr>user := Some \<lparr>user_id = js ''mock-user-id'',
                                     email = js ''mock@example.com'',
                                     role = js ''authenticated''\<rparr>\<rparr>)
       \<and> sent (post_ask_jiji e b sv req) =
           Sent \<lparr>status = 200, success = True, data = Some (AskJijiData a rs),
                 error = None, details = None\<rparr>"
proof -
  let ?req1 = "req\<lparr>user := Some mock_user\<rparr>"
  let ?req2 = "?req1\<lparr>body := Some (JObj [(js ''query'', JStr (trim s))])\<rparr>"
  have auth: "authenticate e b req = Next ?req1"
    using mock hdr by (auto simp: authenticate_def without_bearer_def with_token_mock)
  have "query_checks s = []"
    using valid query_checks_Nil_iff trim_nonempty_iff by blast
  then have val: "validateBody askJijiSchema ?req1 = Next ?req2"
    using obj str by (simp add: validateBody_def askJijiSchema_def)
  have q: "query_of ?req2 = Some (trim s)"
    by (simp add: query_of_def get_prop_def)
  have "result (handleAskJiji sv ?req2) =
          Inr \<lparr>status = 200, success = True, data = Some (AskJijiData a rs),
               error = None, details = None\<rparr>"
    using q ans srch by (simp add: handleAskJiji_def Let_def)
  then have "sent (post_ask_jiji e b sv req) =
           Sent \<lparr>status = 200, success = True, data = Some (AskJijiData a rs),
                 error = None, details = None\<rparr>"
    using auth val by (simp add: post_ask_jiji_def finish_def)
  then show ?thesis using auth by (simp add: mock_user_def)
qed

text \<open>
  The theorem at the spec's end-to-end example: header \<open>"Bearer a.b.c"\<close>, body
  \<open>{"query": "Explain RAG"}\<close>, nothing configured, and the services of the resource
  module.
\<close>

theorem mock_mode_authenticates_witness:
  "isSupabaseConfigured mock_env = False
   \<and> authenticate mock_env failing_backend
       (request_with (Some (js ''Bearer a.b.c''))
          (Some (JObj [(js ''query'', JStr (js ''Explain RAG''))]))) =
       Next \<lparr>authorization = Some (js ''Bearer a.b.c''),
             body = Some (JObj [(js ''query'', JStr (js ''Explain RAG''))]),
             user = Some \<lparr>user_id = js ''mock-user-id'', email = js ''mock@example.com'',
                          role = js ''authenticated''\<rparr>\<rparr>
   \<and> sent (post_ask_jiji mock_env failing_backend
              (resource_service sample_answers mock_env failing_backend)
              (request_with (Some (js ''Bearer a.b.c''))
                 (Some (JObj [(js ''query'', JStr (js ''Explain RAG''))])))) =
       Sent \<lparr>status = 200, success = True,
             data = Some (AskJijiData (ragAnswer sample_answers) []),
             error = None, details = None\<rparr>"
proof -
  let ?req = "request_with (Some (js ''Bearer a.b.c''))
                 (Some (JObj [(js ''query'', JStr (js ''Explain RAG''))]))"
  let ?sv = "resource_service sample_answers mock_env failing_backend"
  have mock: "\<not> isSupabaseConfigured mock_env"
    by (simp add: isSupabaseConfigured_def mock_env_def truthy_def)
  have hdr: "authorization ?req = None
      \<or> (\<exists>h. authorization ?req = Some h
            \<and> (\<not> startsWith h (js ''Bearer '')
               \<or> length (split (substring h 7) (of_char CHR ''.'')) = 3))"
    using split_abc by (simp add: request_with_def)
  have obj: "body ?req = Some (JObj [(js ''query'', JStr (js ''Explain RAG''))])"
    by (simp add: request_with_def)
  have str: "get_prop [(js ''query'', JStr (js ''Explain RAG''))] (js ''query'')
               = Some (JStr (js ''Explain RAG''))"
    by (simp add: get_prop_def)
  have t: "trim (js ''Explain RAG'') = js ''Explain RAG''"
    by (simp add: trim_def js_def isWhiteSpace_def)
  have l: "code_points (js ''Explain RAG'') = 11"
    by (simp add: js_def isHighSurrogate_def)
  have v1: "1 \<le> code_points (js ''Explain RAG'')" unfolding l by simp
  have v2: "code_points (js ''Explain RAG'') \<le> 1000" unfolding l by simp
  have v3: "trim (js ''Explain RAG'') \<noteq> []" unfolding t by (simp add: js_def)
  have ans: "answer_of ?sv (trim (js ''Explain RAG'')) = Inr (ragAnswer sample_answers)"
    unfolding t by (simp add: resource_service_def explain_rag)
  have srch: "search_of ?sv (trim (js ''Explain RAG'')) = Inr []"
    using mock by (simp add: resource_service_def searchResources_def supabase_None)
  show ?thesis
    using mock mock_mode_authenticates [OF mock hdr obj str v1 v2 v3 ans srch, of failing_backend]
    by (simp add: request_with_def)
qed

section \<open>The terminal error handler\<close>

text \<open>
  Claim C8, as the spec states it, makes the message generic whenever the service runs
  in production mode. The handler replaces the message only when, in production mode,
  the status code is 500: an \<open>AppError\<close> with status 403 keeps its own message.
\<close>

theorem errorHandler_production_passes_message:
  "NODE_ENV production_env = Some (js ''production'')
   \<and> errorHandler production_env (AppError (js ''Forbidden'') 403) =
       Some \<lparr>status = 403, success = False, data = None, error = Some (js ''Forbidden''),
             details = None\<rparr>
   \<and> js ''Forbidden'' \<noteq> js ''Internal server error''"
  by (simp add: errorHandler_def production_env_def live_env_def js_def)

text \<open>
  Claim C8, amended. For every error reaching the terminal error handler: when it is
  an \<open>AppError\<close> whose \<open>statusCode\<close> is outside 100 to 999, setting the status throws
  and the handler sends no response; otherwise the handler sends a response whose status
  code is the \<open>statusCode\<close> of the error when it is an \<open>AppError\<close> and 500 for any other
  error, and whose \<open>error\<close> field is the generic \<open>"Internal server error"\<close> when the
  service runs in production mode and the status code is 500, and the error's own message
  otherwise.
\<close>

theorem errorHandler_status_and_message:
  "(\<forall>m c. err = AppError m c \<and> 100 \<le> c \<and> c \<le> 999 \<longrightarrow>
       (\<exists>r. errorHandler e err = Some r \<and> status r = c))
   \<and> (\<forall>m c. err = AppError m c \<and> (c < 100 \<or> 999 < c) \<longrightarrow> errorHandler e err = None)
   \<and> ((\<forall>m c. err \<noteq> AppError m c) \<longrightarrow>
         (\<exists>r. errorHandler e err = Some r \<and> status r = 500))
   \<and> (\<forall>r. errorHandler e err = Some r \<longrightarrow>
         success r = False \<and> data r = None
         \<and> (NODE_ENV e = Some (js ''production'') \<and> status r = 500
               \<longrightarrow> error r = Some (js ''Internal server error''))
         \<and> (\<not> (NODE_ENV e = Some (js ''production'') \<and> status r = 500)
               \<longrightarrow> error r = Some (err_message err)))"
  by (cases err) (auto simp: errorHandler_def)

text \<open>
  The theorem at an \<open>AppError\<close> of status 403, at one of status 42, and at a plain
  error, in production mode and outside it.
\<close>

theorem errorHandler_status_and_message_witness:
  "errorHandler production_env (AppError (js ''Forbidden'') 403) =
     Some \<lparr>status = 403, success = False, data = None, error = Some (js ''Forbidden''),
           details = None\<rparr>
   \<and> errorHandler production_env (AppError (js ''Forbidden'') 42) = None
   \<and> errorHandler production_env (Error (js ''boom'')) =
     Some \<lparr>status = 500, success = False, data = None,
           error = Some (js ''Internal server error''), details = None\<rparr>
   \<and> errorHandler mock_env (Error (js ''boom'')) =
     Some \<lparr>status = 500, success = False, data = None, error = Some (js ''boom''),
           details = None\<rparr>"
proof -
  have p: "NODE_ENV production_env = Some (js ''production'')"
    by (simp add: production_env_def)
  have d: "NODE_ENV mock_env \<noteq> Some (js ''production'')"
    by (simp add: mock_env_def)
  note a = errorHandler_status_and_message [of "AppError (js ''Forbidden'') 403" production_env]
  note x = errorHandler_status_and_message [of "AppError (js ''Forbidden'') 42" production_env]
  note b = errorHandler_status_and_message [of "Error (js ''boom'')" production_env]
  note c = errorHandler_status_and_message [of "Error (js ''boom'')" mock_env]
  from a obtain r1 where r1: "errorHandler production_env (AppError (js ''Forbidden'') 403) = Some r1"
    "status r1 = 403" by auto
  with a p have "success r1 = False \<and> data r1 = None \<and> error r1 = Some (js ''Forbidden'')"
    by simp
  moreover have "details r1 = None" using r1 by (auto simp: errorHandler_def)
  ultimately have a1: "errorHandler production_env (AppError (js ''Forbidden'') 403) =
     Some \<lparr>status = 403, success = False, data = None, error = Some (js ''Forbidden''),
           details = None\<rparr>"
    using r1 by (cases r1) simp
  from x have x1: "errorHandler production_env (AppError (js ''Forbidden'') 42) = None"
    by simp
  from b obtain r2 where r2: "errorHandler production_env (Error (js ''boom'')) = Some r2"
    "status r2 = 500" by auto
  with b p have "success r2 = False \<and> data r2 = None
      \<and> error r2 = Some (js ''Internal server error'')"
    by simp
  moreover have "details r2 = None" using r2 by (auto simp: errorHandler_def)
  ultimately have b1: "errorHandler production_env (Error (js ''boom'')) =
     Some \<lparr>status = 500, success = False, data = None,
           error = Some (js ''Internal server error''), details = None\<rparr>"
    using r2 by (cases r2) simp
  from c obtain r3 where r3: "errorHandler mock_env (Error (js ''boom'')) = Some r3"
    "status r3 = 500" by auto
  with c d have "success r3 = False \<and> data r3 = None \<and> error r3 = Some (js ''boom'')"
    by simp
  moreover have "details r3 = None" using r3 by (auto simp: errorHandler_def)
  ultimately have c1: "errorHandler mock_env (Error (js ''boom'')) =
     Some \<lparr>status = 500, success = False, data = None, error = Some (js ''boom''),
           details = None\<rparr>"
    using r3 by (cases r3) simp
  show ?thesis using a1 x1 b1 c1 by blast
qed

section \<open>The query log\<close>

text \<open>
  Claim C7. For every input \<open>(userId, queryText, answerText, resourceIds)\<close>, the promise
  of \<open>saveQuery\<close> never rejects: when the service-role client is unconfigured no insert
  is made and the value is \<open>null\<close>; when the insert throws or returns an error, the
  failure is logged at error level and the value is \<open>null\<close>.
\<close>

theorem saveQuery_never_throws:
  "(\<exists>v. settled (saveQuery e b userId queryText answerText resourceIds) = Inr v)
   \<and> (\<not> (isSupabaseAdminConfigured e \<and> supabaseAdmin e \<noteq> None) \<longrightarrow>
        settled (saveQuery e b userId queryText answerText resourceIds) = Inr None
        \<and> inserts (saveQuery e b userId queryText answerText resourceIds) = [])
   \<and> (\<forall>admin. isSupabaseAdminConfigured e \<and> supabaseAdmin e = Some admin
        \<and> ((\<exists>x. db_insert_query b admin
                   \<lparr>row_user_id = userId, query_text = queryText,
                    answer_text = answerText, resources_returned = resourceIds\<rparr>
                 = InsertThrows x)
           \<or> (\<exists>d er. db_insert_query b admin
                   \<lparr>row_user_id = userId, query_text = queryText,
                    answer_text = answerText, resources_returned = resourceIds\<rparr>
                 = InsertReturns d (Some er)))
        \<longrightarrow> settled (saveQuery e b userId queryText answerText resourceIds) = Inr None
            \<and> (\<exists>m. save_logs (saveQuery e b userId queryText answerText resourceIds)
                     = [(LogError, m)]))"
proof (intro conjI allI impI)
  show "\<exists>v. settled (saveQuery e b userId queryText answerText resourceIds) = Inr v"
    by (simp add: saveQuery_def Let_def
          split: bool.splits option.splits insert_result.splits)
next
  assume "\<not> (isSupabaseAdminConfigured e \<and> supabaseAdmin e \<noteq> None)"
  then show "settled (saveQuery e b userId queryText answerText resourceIds) = Inr None"
    and "inserts (saveQuery e b userId queryText answerText resourceIds) = []"
    by (auto simp: saveQuery_def split: bool.splits option.splits)
next
  fix admin
  assume a: "isSupabaseAdminConfigured e \<and> supabaseAdmin e = Some admin
        \<and> ((\<exists>x. db_insert_query b admin
                   \<lparr>row_user_id = userId, query_text = queryText,
                    answer_text = answerText, resources_returned = resourceIds\<rparr>
                 = InsertThrows x)
           \<or> (\<exists>d er. db_insert_query b admin
                   \<lparr>row_user_id = userId, query_text = queryText,
                    answer_text = answerText, resources_returned = resourceIds\<rparr>
                 = InsertReturns d (Some er)))"
  then show "settled (saveQuery e b userId queryText answerText resourceIds) = Inr None"
    and "\<exists>m. save_logs (saveQuery e b userId queryText answerText resourceIds)
                     = [(LogError, m)]"
    by (auto simp: saveQuery_def Let_def)
qed

lemma live_admin:
  "isSupabaseAdminConfigured live_env
   \<and> supabaseAdmin live_env
       = Some \<lparr>client_url = js ''https://x.supabase.co'', client_key = js ''service''\<rparr>"
  by (simp add: isSupabaseAdminConfigured_def supabaseAdmin_def live_env_def truthy_def js_def)

text \<open>
  The theorem with nothing configured, and with a configured client whose insert throws.
\<close>

theorem saveQuery_never_throws_witness:
  "isSupabaseAdminConfigured mock_env = False
   \<and> settled (saveQuery mock_env failing_backend None (js ''q'') (js ''a'') []) = Inr None
   \<and> inserts (saveQuery mock_env failing_backend None (js ''q'') (js ''a'') []) = []
   \<and> isSupabaseAdminConfigured live_env
   \<and> db_insert_query failing_backend
        \<lparr>client_url = js ''https://x.supabase.co'', client_key = js ''service''\<rparr>
        \<lparr>row_user_id = None, query_text = js ''q'', answer_text = js ''a'',
         resources_returned = []\<rparr> = InsertThrows (Error (js ''fetch failed''))
   \<and> settled (saveQuery live_env failing_backend None (js ''q'') (js ''a'') []) = Inr None
   \<and> (\<exists>m. save_logs (saveQuery live_env failing_backend None (js ''q'') (js ''a'') [])
            = [(LogError, m)])"
proof -
  have m: "\<not> isSupabaseAdminConfigured mock_env"
    by (simp add: isSupabaseAdminConfigured_def mock_env_def truthy_def)
  have f: "db_insert_query failing_backend
        \<lparr>client_url = js ''https://x.supabase.co'', client_key = js ''service''\<rparr>
        \<lparr>row_user_id = None, query_text = js ''q'', answer_text = js ''a'',
         resources_returned = []\<rparr> = InsertThrows (Error (js ''fetch failed''))"
    by (simp add: failing_backend_def)
  note a = saveQuery_never_throws [of mock_env failing_backend None "js ''q''" "js ''a''" "[]"]
  note b = saveQuery_never_throws [of live_env failing_backend None "js ''q''" "js ''a''" "[]"]
  from a m have a1: "settled (saveQuery mock_env failing_backend None (js ''q'') (js ''a'') []) = Inr None
     \<and> inserts (saveQuery mock_env failing_backend None (js ''q'') (js ''a'') []) = []"
    by blast
  from b live_admin f
  have b1: "settled (saveQuery live_env failing_backend None (js ''q'') (js ''a'') []) = Inr None
     \<and> (\<exists>m. save_logs (saveQuery live_env failing_backend None (js ''q'') (js ''a'') [])
            = [(LogError, m)])"
    by blast
  show ?thesis using m a1 b1 f live_admin by blast
qed

section \<open>The answer generator\<close>

lemma first_match_none:
  "\<forall>(ks, a)\<in>set rs. \<forall>k\<in>set ks. \<not> includes_str q k \<Longrightarrow> first_match q rs fallback = fallback"
proof (induction rs)
  case Nil
  then show ?case by simp
next
  case (Cons r rs)
  obtain ks a where r: "r = (ks, a)" by (cases r)
  with Cons.prems have "\<not> list_ex (includes_str q) ks" by (auto simp: list_ex_iff)
  moreover from Cons have "first_match q rs fallback = fallback" by simp
  ultimately show ?case using r by simp
qed

text \<open>
  Claim C5. \<open>generateMockAnswer\<close> is a function of its input alone: it lower-cases the
  input and checks the ordered keyword rules. For every input whose lower-cased form
  contains \<open>"rag"\<close> it returns the RAG answer, in particular for \<open>"Explain RAG"\<close>; for
  every input whose lower-cased form contains none of the keywords of the rules it
  returns the fallback answer; and calling it any number of times on the same input
  gives the same answer each time.
\<close>

theorem generateMockAnswer_keywords:
  "(includes_str (toLowerCase query) (js ''rag'') \<longrightarrow> generateMockAnswer T query = ragAnswer T)
   \<and> ((\<forall>(ks, a)\<in>set (rules T). \<forall>k\<in>set ks. \<not> includes_str (toLowerCase query) k)
        \<longrightarrow> generateMockAnswer T query = fallbackAnswer T)
   \<and> generateMockAnswer T (js ''Explain RAG'') = ragAnswer T
   \<and> map (generateMockAnswer T) (replicate n query) = replicate n (generateMockAnswer T query)"
proof (intro conjI impI)
  assume "includes_str (toLowerCase query) (js ''rag'')"
  then show "generateMockAnswer T query = ragAnswer T"
    by (simp add: generateMockAnswer_def rules_def)
next
  assume "\<forall>(ks, a)\<in>set (rules T). \<forall>k\<in>set ks. \<not> includes_str (toLowerCase query) k"
  then show "generateMockAnswer T query = fallbackAnswer T"
    unfolding generateMockAnswer_def by (rule first_match_none)
next
  show "generateMockAnswer T (js ''Explain RAG'') = ragAnswer T"
    by (rule explain_rag)
next
  show "map (generateMockAnswer T) (replicate n query) = replicate n (generateMockAnswer T query)"
    by simp
qed

lemma hello_no_keyword:
  "list_all (\<lambda>(ks, a). list_all (\<lambda>k. \<not> includes_str (toLowerCase (js ''Hello there'')) k) ks)
     (rules sample_answers)"
  by (simp add: rules_def sample_answers_def toLowerCase_def js_def startsWith_def)

text \<open>
  The theorem on the sample table: \<open>"What is storage?"\<close> contains \<open>"rag"\<close>, and
  \<open>"Hello there"\<close> contains no keyword.
\<close>

theorem generateMockAnswer_keywords_witness:
  "includes_str (toLowerCase (js ''What is storage?'')) (js ''rag'')
   \<and> generateMockAnswer sample_answers (js ''What is storage?'') = ragAnswer sample_answers
   \<and> list_all (\<lambda>(ks, a). list_all (\<lambda>k. \<not> includes_str (toLowerCase (js ''Hello there'')) k) ks)
        (rules sample_answers)
   \<and> generateMockAnswer sample_answers (js ''Hello there'') = fallbackAnswer sample_answers"
proof -
  have r: "includes_str (toLowerCase (js ''What is storage?'')) (js ''rag'')"
    by (simp add: toLowerCase_def js_def startsWith_def)
  have h: "\<forall>(ks, a)\<in>set (rules sample_answers).
             \<forall>k\<in>set ks. \<not> includes_str (toLowerCase (js ''Hello there'')) k"
    using hello_no_keyword by (auto simp: list_all_iff)
  from generateMockAnswer_keywords [of "js ''What is storage?''" sample_answers] r
  have a: "generateMockAnswer sample_answers (js ''What is storage?'') = ragAnswer sample_answers"
    by blast
  from generateMockAnswer_keywords [of "js ''Hello there''" sample_answers] h
  have b: "generateMockAnswer sample_answers (js ''Hello there'') = fallbackAnswer sample_answers"
    by blast
  show ?thesis using r a b hello_no_keyword by blast
qed

section \<open>Search failures\<close>

text \<open>
  Claim C6. For every query string, \<open>searchResources\<close> returns the empty sequence (it
  does not throw) when the backing store is unconfigured, and also when the query of the
  store throws or returns an error; in each of these cases the controller of
  \<open>/ask-jiji\<close> answers 200 with the generated answer and \<open>resources: []\<close>.
\<close>

theorem search_failure_is_empty_result:
  assumes "\<not> isSupabaseConfigured e
     \<or> (\<exists>c. supabase e = Some c
          \<and> ((\<exists>x. db_search_resources b c query = SearchThrows x)
             \<or> (\<exists>d er. db_search_resources b c query = SearchReturns d (Some er))))"
  shows "found (searchResources e b query) = Inr []
       \<and> (\<forall>req. query_of req = Some query \<longrightarrow>
             result (handleAskJiji (resource_service T e b) req) =
               Inr \<lparr>status = 200, success = True,
                    data = Some (AskJijiData (generateMockAnswer T query) []),
                    error = None, details = None\<rparr>)"
proof -
  have f: "found (searchResources e b query) = Inr []"
    using assms supabase_None [of e]
    by (auto simp: searchResources_def split: bool.splits option.splits)
  then show ?thesis
    by (simp add: handleAskJiji_def resource_service_def Let_def)
qed

lemma live_client:
  "isSupabaseConfigured live_env
   \<and> supabase live_env
       = Some \<lparr>client_url = js ''https://x.supabase.co'', client_key = js ''anon''\<rparr>"
  by (simp add: isSupabaseConfigured_def supabase_def live_env_def truthy_def js_def)

text \<open>
  The theorem with nothing configured, and with a configured store whose query throws.
\<close>

theorem search_failure_is_empty_result_witness:
  "isSupabaseConfigured mock_env = False
   \<and> found (searchResources mock_env failing_backend (js ''Explain RAG'')) = Inr []
   \<and> supabase live_env
       = Some \<lparr>client_url = js ''https://x.supabase.co'', client_key = js ''anon''\<rparr>
   \<and> db_search_resources failing_backend
        \<lparr>client_url = js ''https://x.supabase.co'', client_key = js ''anon''\<rparr> (js ''Explain RAG'')
       = SearchThrows (Error (js ''fetch failed''))
   \<and> found (searchResources live_env failing_backend (js ''Explain RAG'')) = Inr []
   \<and> query_of (request_with None (Some (JObj [(js ''query'', JStr (js ''Explain RAG''))])))
       = Some (js ''Explain RAG'')
   \<and> result (handleAskJiji (resource_service sample_answers live_env failing_backend)
        (request_with None (Some (JObj [(js ''query'', JStr (js ''Explain RAG''))])))) =
       Inr \<lparr>status = 200, success = True,
            data = Some (AskJijiData (ragAnswer sample_answers) []),
            error = None, details = None\<rparr>"
proof -
  have m: "\<not> isSupabaseConfigured mock_env"
    by (simp add: isSupabaseConfigured_def mock_env_def truthy_def)
  have t: "db_search_resources failing_backend
        \<lparr>client_url = js ''https://x.supabase.co'', client_key = js ''anon''\<rparr> (js ''Explain RAG'')
       = SearchThrows (Error (js ''fetch failed''))"
    by (simp add: failing_backend_def)
  have q: "query_of (request_with None (Some (JObj [(js ''query'', JStr (js ''Explain RAG''))])))
       = Some (js ''Explain RAG'')"
    by (simp add: query_of_def request_with_def get_prop_def)
  have h1: "\<not> isSupabaseConfigured mock_env
     \<or> (\<exists>c. supabase mock_env = Some c
          \<and> ((\<exists>x. db_search_resources failing_backend c (js ''Explain RAG'') = SearchThrows x)
             \<or> (\<exists>d er. db_search_resources failing_backend c (js ''Explain RAG'')
                   = SearchReturns d (Some er))))"
    using m by blast
  have h2: "\<not> isSupabaseConfigured live_env
     \<or> (\<exists>c. supabase live_env = Some c
          \<and> ((\<exists>x. db_search_resources failing_backend c (js ''Explain RAG'') = SearchThrows x)
             \<or> (\<exists>d er. db_search_resources failing_backend c (js ''Explain RAG'')
                   = SearchReturns d (Some er))))"
    using live_client t by blast
  show ?thesis
    using m t q live_client
      search_failure_is_empty_result [OF h1, of sample_answers]
      search_failure_is_empty_result [OF h2, of sample_answers]
    by (simp add: explain_rag)
qed

section \<open>What is logged is what was shown\<close>

lemma authenticate_Respond_fail:
  "authenticate e b req = Respond r \<Longrightarrow>
     \<exists>c m. r = fail_response c m \<and> m \<noteq> [] \<and> (c = 401 \<or> c = 500)"
  by (auto simp: authenticate_def without_bearer_def with_token_def js_def
           split: if_splits option.splits bool.splits getUser_result.splits)

lemma summary_nonempty: "summary ds \<noteq> []"
  by (simp add: summary_def js_def)

lemma validateBody_Respond_fail:
  "validateBody schema req = Respond r \<Longrightarrow>
     \<exists>ds. r = \<lparr>status = 400, success = False, data = None,
                error = Some (summary ds), details = Some ds\<rparr>"
  by (auto simp: validateBody_def Let_def split: parse_result.splits)

lemma handleAskJiji_Inr:
  "result (handleAskJiji sv req) = Inr r \<Longrightarrow>
     \<exists>q a rs. query_of req = Some q \<and> answer_of sv q = Inr a \<and> search_of sv q = Inr rs
       \<and> r = \<lparr>status = 200, success = True, data = Some (AskJijiData a rs),
               error = None, details = None\<rparr>
       \<and> background (handleAskJiji sv req) = Some (userId_of req, q, a, map res_id rs)"
  by (auto simp: handleAskJiji_def Let_def split: option.splits sum.splits)

lemma errorHandler_fail: "errorHandler e err = Some r \<Longrightarrow> \<not> success r \<and> data r = None"
  by (auto simp: errorHandler_def Let_def split: if_splits)

lemma next_error_fail: "next_error e x = Sent r \<Longrightarrow> \<not> success r"
  using errorHandler_fail by (auto simp: next_error_def split: option.splits)

lemma inserts_saveQuery:
  "map resources_returned (inserts (saveQuery e b u q a ids)) =
     (if isSupabaseAdminConfigured e then [ids] else [])"
  using supabaseAdmin_None_iff [of e]
  by (auto simp: saveQuery_def Let_def split: bool.splits option.splits insert_result.splits)

text \<open>
  Claim C9. For every successful \<open>/ask-jiji\<close> request, the response is the 200 response
  with some answer \<open>a\<close> and resources \<open>rs\<close>, the \<open>saveQuery\<close> call started in the
  background is handed exactly the ids of \<open>rs\<close> in the same order, and the row that
  call inserts (when the service-role client is configured) has these ids as its
  \<open>resources_returned\<close>.
\<close>

theorem logged_resources_agree:
  assumes ok: "sent (post_ask_jiji e b sv req) = Sent r" and yes: "success r"
  shows "\<exists>u q a rs.
           r = \<lparr>status = 200, success = True, data = Some (AskJijiData a rs),
                error = None, details = None\<rparr>
         \<and> started (post_ask_jiji e b sv req) = Some (u, q, a, map res_id rs)
         \<and> map resources_returned (inserts (background_write e b (u, q, a, map res_id rs)))
             = (if isSupabaseAdminConfigured e then [map res_id rs] else [])"
proof (cases "authenticate e b req")
  case (Respond r')
  then have "\<not> success r'" using authenticate_Respond_fail by (fastforce simp: fail_response_def)
  with ok yes Respond show ?thesis by (simp add: post_ask_jiji_def)
next
  case (NextError x)
  with ok yes show ?thesis using next_error_fail by (simp add: post_ask_jiji_def)
next
  case (Next req1)
  note auth = this
  show ?thesis
  proof (cases "validateBody askJijiSchema req1")
    case (Respond r')
    then have "\<not> success r'" using validateBody_Respond_fail by fastforce
    with ok yes auth Respond show ?thesis by (simp add: post_ask_jiji_def)
  next
    case (NextError x)
    with ok yes auth show ?thesis using next_error_fail by (simp add: post_ask_jiji_def)
  next
    case (Next req2)
    then have p: "post_ask_jiji e b sv req = finish e (handleAskJiji sv req2)"
      using auth by (simp add: post_ask_jiji_def)
    show ?thesis
    proof (cases "result (handleAskJiji sv req2)")
      case (Inl x)
      with ok yes p show ?thesis using next_error_fail by (simp add: finish_def)
    next
      case (Inr r')
      from handleAskJiji_Inr [OF Inr] obtain q a rs where
        r: "r' = \<lparr>status = 200, success = True, data = Some (AskJijiData a rs),
               error = None, details = None\<rparr>"
        and bg: "background (handleAskJiji sv req2) = Some (userId_of req2, q, a, map res_id rs)"
        by blast
      have "sent (post_ask_jiji e b sv req) = Sent r'"
        and "started (post_ask_jiji e b sv req) = Some (userId_of req2, q, a, map res_id rs)"
        using p Inr bg by (simp_all add: finish_def)
      moreover have "map resources_returned
           (inserts (background_write e b (userId_of req2, q, a, map res_id rs)))
             = (if isSupabaseAdminConfigured e then [map res_id rs] else [])"
        by (simp add: background_write_def inserts_saveQuery)
      ultimately show ?thesis using r ok by auto
    qed
  qed
qed

lemma sample_run:
  "post_ask_jiji log_only_env failing_backend sample_services
     (request_with None (Some (JObj [(js ''query'', JStr (js ''Explain RAG''))]))) =
   \<lparr>sent = Sent \<lparr>status = 200, success = True,
                  data = Some (AskJijiData (ragAnswer sample_answers) two_resources),
                  error = None, details = None\<rparr>,
    started = Some (Some (js ''mock-user-id''), js ''Explain RAG'', ragAnswer sample_answers,
                    [js ''r1'', js ''r2''])\<rparr>"
proof -
  let ?req = "request_with None (Some (JObj [(js ''query'', JStr (js ''Explain RAG''))]))"
  let ?req1 = "?req\<lparr>user := Some mock_user\<rparr>"
  have m: "\<not> isSupabaseConfigured log_only_env"
    by (simp add: isSupabaseConfigured_def log_only_env_def truthy_def)
  have auth: "authenticate log_only_env failing_backend ?req = Next ?req1"
    using m by (simp add: authenticate_def without_bearer_def request_with_def)
  have t: "trim (js ''Explain RAG'') = js ''Explain RAG''"
    by (simp add: trim_def js_def isWhiteSpace_def)
  have l: "code_points (js ''Explain RAG'') = 11"
    by (simp add: js_def isHighSurrogate_def)
  have "query_checks (js ''Explain RAG'') = []"
    unfolding query_checks_def t l by (simp add: js_def)
  then have val: "validateBody askJijiSchema ?req1 = Next ?req1"
    using t by (simp add: validateBody_def askJijiSchema_def request_with_def get_prop_def)
  have u: "userId_of ?req1 = Some (js ''mock-user-id'')"
    by (simp add: userId_of_def mock_user_def js_def)
  have q: "query_of ?req1 = Some (js ''Explain RAG'')"
    by (simp add: query_of_def request_with_def get_prop_def)
  have ids: "map res_id two_resources = [js ''r1'', js ''r2'']"
    by (simp add: two_resources_def)
  have "handleAskJiji sample_services ?req1 =
          \<lparr>result = Inr \<lparr>status = 200, success = True,
                 data = Some (AskJijiData (ragAnswer sample_answers) two_resources),
                 error = None, details = None\<rparr>,
           background = Some (Some (js ''mock-user-id''), js ''Explain RAG'',
                              ragAnswer sample_answers, [js ''r1'', js ''r2''])\<rparr>"
    unfolding handleAskJiji_def q u by (simp add: sample_services_def explain_rag ids)
  then show ?thesis using auth val by (simp add: post_ask_jiji_def finish_def)
qed

text \<open>
  The theorem at a request without header and with body \<open>{"query": "Explain RAG"}\<close>,
  with the log writer configured and a search that finds two resources.
\<close>

theorem logged_resources_agree_witness:
  "sent (post_ask_jiji log_only_env failing_backend sample_services
     (request_with None (Some (JObj [(js ''query'', JStr (js ''Explain RAG''))])))) =
     Sent \<lparr>status = 200, success = True,
           data = Some (AskJijiData (ragAnswer sample_answers) two_resources),
           error = None, details = None\<rparr>
   \<and> isSupabaseAdminConfigured log_only_env
   \<and> (\<exists>u q.
         started (post_ask_jiji log_only_env failing_backend sample_services
           (request_with None (Some (JObj [(js ''query'', JStr (js ''Explain RAG''))]))))
             = Some (u, q, ragAnswer sample_answers, [js ''r1'', js ''r2''])
         \<and> map resources_returned
             (inserts (background_write log_only_env failing_backend
                (u, q, ragAnswer sample_answers, map res_id two_resources)))
             = [[js ''r1'', js ''r2'']])"
proof -
  let ?run = "post_ask_jiji log_only_env failing_backend sample_services
     (request_with None (Some (JObj [(js ''query'', JStr (js ''Explain RAG''))])))"
  let ?r = "\<lparr>status = 200, success = True,
           data = Some (AskJijiData (ragAnswer sample_answers) two_resources),
           error = None, details = None\<rparr>"
  have ok: "sent ?run = Sent ?r" by (simp add: sample_run)
  have yes: "success ?r" by simp
  have adm: "isSupabaseAdminConfigured log_only_env"
    by (simp add: isSupabaseAdminConfigured_def log_only_env_def truthy_def js_def)
  have ids: "map res_id two_resources = [js ''r1'', js ''r2'']"
    by (simp add: two_resources_def)
  from logged_resources_agree [OF ok yes] obtain u q a rs where
    s: "?r = \<lparr>status = 200, success = True, data = Some (AskJijiData a rs),
              error = None, details = None\<rparr>"
    and st: "started ?run = Some (u, q, a, map res_id rs)"
    and ins: "map resources_returned
             (inserts (background_write log_only_env failing_backend (u, q, a, map res_id rs)))
             = (if isSupabaseAdminConfigured log_only_env then [map res_id rs] else [])"
    by blast
  from s have rs: "rs = two_resources" and a: "a = ragAnswer sample_answers" by simp_all
  from ok adm rs a st ins ids show ?thesis by auto
qed

section \<open>The shape of every response\<close>

text \<open>
  Claim C10, as stated, asks for a non-empty error string in every response with status
  400, 401, 404 or 500, and for \<open>success: true\<close> with a \<open>data\<close> field in every 200
  response. The terminal error handler passes on the message and the status code of the
  error: outside production mode an error with the empty message is answered with status
  500 and \<open>error: ""\<close>, and an \<open>AppError\<close> with status code 200 is answered with status
  200, \<open>success: false\<close> and no \<open>data\<close>.
\<close>

theorem errorHandler_empty_message:
  "errorHandler mock_env (Error []) =
     Some \<lparr>status = 500, success = False, data = None, error = Some [], details = None\<rparr>
   \<and> constructs
        \<lparr>status = 500, success = False, data = None, error = Some [], details = None\<rparr>
   \<and> errorHandler mock_env (AppError (js ''done'') 200) =
     Some \<lparr>status = 200, success = False, data = None, error = Some (js ''done''),
           details = None\<rparr>
   \<and> constructs
        \<lparr>status = 200, success = False, data = None, error = Some (js ''done''),
         details = None\<rparr>"
proof -
  have a: "errorHandler mock_env (Error []) =
     Some \<lparr>status = 500, success = False, data = None, error = Some [], details = None\<rparr>"
    by (simp add: errorHandler_def mock_env_def)
  have b: "errorHandler mock_env (AppError (js ''done'') 200) =
     Some \<lparr>status = 200, success = False, data = None, error = Some (js ''done''),
           details = None\<rparr>"
    by (simp add: errorHandler_def mock_env_def)
  show ?thesis
    using a b constructs.from_errorHandler [OF a] constructs.from_errorHandler [OF b]
    by blast
qed

text \<open>
  Claim C10, amended. Every response the service constructs with status 400, 401, 404
  or 500 has \<open>success: false\<close>, no \<open>data\<close> field and an \<open>error\<close> string, and that
  string is non-empty unless the response is the terminal error handler's for an error
  whose message is empty; every 200 response has \<open>success: true\<close> and a \<open>data\<close> field,
  unless it is the terminal error handler's response to an \<open>AppError\<close> whose status
  code is 200, which has \<open>success: false\<close>; and every response with \<open>success: true\<close>
  has status 200, a \<open>data\<close> field and no \<open>error\<close>.
\<close>

theorem ApiResponse_invariant:
  assumes "constructs r"
  shows "(status r \<in> {400, 401, 404, 500} \<longrightarrow>
            \<not> success r \<and> data r = None
            \<and> (\<exists>m. error r = Some m
                  \<and> (m = [] \<longrightarrow>
                       (\<exists>e err. errorHandler e err = Some r \<and> err_message err = []))))
       \<and> (status r = 200 \<longrightarrow>
            (success r \<and> data r \<noteq> None)
            \<or> (\<not> success r \<and> (\<exists>e m. errorHandler e (AppError m 200) = Some r)))
       \<and> (success r \<longrightarrow> status r = 200 \<and> data r \<noteq> None \<and> error r = None)"
  using assms
proof cases
  case (from_health e timestamp)
  then show ?thesis by (simp add: health_def)
next
  case (from_controller sv req)
  then show ?thesis using handleAskJiji_Inr by fastforce
next
  case (from_authenticate e b req)
  then show ?thesis using authenticate_Respond_fail by (fastforce simp: fail_response_def)
next
  case (from_validateBody schema req)
  then show ?thesis using validateBody_Respond_fail summary_nonempty by fastforce
next
  case (from_notFoundHandler verb route)
  then show ?thesis by (simp add: notFoundHandler_def fail_response_def js_def)
next
  case (from_errorHandler e err)
  have f: "\<not> success r" "data r = None" using from_errorHandler errorHandler_fail by auto
  have m: "\<exists>m. error r = Some m
             \<and> (m = [] \<longrightarrow> (\<exists>e err. errorHandler e err = Some r \<and> err_message err = []))"
  proof (cases "NODE_ENV e = Some (js ''production'') \<and> status r = 500")
    case True
    then have "error r = Some (js ''Internal server error'')"
      using from_errorHandler by (auto simp: errorHandler_def Let_def split: if_splits)
    then show ?thesis by (simp add: js_def)
  next
    case False
    then have "error r = Some (err_message err)"
      using from_errorHandler by (auto simp: errorHandler_def Let_def split: if_splits)
    then show ?thesis using from_errorHandler by blast
  qed
  have s: "status r = 200 \<longrightarrow> (\<exists>e m. errorHandler e (AppError m 200) = Some r)"
  proof
    assume "status r = 200"
    then obtain m where "err = AppError m 200"
      using from_errorHandler by (cases err) (auto simp: errorHandler_def Let_def split: if_splits)
    then show "\<exists>e m. errorHandler e (AppError m 200) = Some r"
      using from_errorHandler by blast
  qed
  from f m s show ?thesis by blast
qed

text \<open>The theorem at a 404 response and at a health response.\<close>

theorem ApiResponse_invariant_witness:
  "constructs (notFoundHandler (js ''GET'') (js ''/nowhere''))
   \<and> status (notFoundHandler (js ''GET'') (js ''/nowhere'')) = 404
   \<and> success (notFoundHandler (js ''GET'') (js ''/nowhere'')) = False
   \<and> data (notFoundHandler (js ''GET'') (js ''/nowhere'')) = None
   \<and> error (notFoundHandler (js ''GET'') (js ''/nowhere''))
       = Some (js ''Route GET /nowhere not found'')
   \<and> constructs (health mock_env (js ''2026-02-08T00:00:00.000Z''))
   \<and> success (health mock_env (js ''2026-02-08T00:00:00.000Z''))
   \<and> status (health mock_env (js ''2026-02-08T00:00:00.000Z'')) = 200
   \<and> data (health mock_env (js ''2026-02-08T00:00:00.000Z''))
       = Some (HealthData (js ''healthy'') (js ''2026-02-08T00:00:00.000Z'') (js ''development''))
   \<and> error (health mock_env (js ''2026-02-08T00:00:00.000Z'')) = None"
proof -
  have c1: "constructs (notFoundHandler (js ''GET'') (js ''/nowhere''))"
    by (rule constructs.from_notFoundHandler)
  have c2: "constructs (health mock_env (js ''2026-02-08T00:00:00.000Z''))"
    by (rule constructs.from_health)
  have s: "status (notFoundHandler (js ''GET'') (js ''/nowhere'')) = 404"
    by (simp add: notFoundHandler_def fail_response_def)
  have e: "error (notFoundHandler (js ''GET'') (js ''/nowhere''))
       = Some (js ''Route GET /nowhere not found'')"
    by (simp add: notFoundHandler_def fail_response_def js_def)
  have h: "success (health mock_env (js ''2026-02-08T00:00:00.000Z''))"
    by (simp add: health_def)
  have d: "data (health mock_env (js ''2026-02-08T00:00:00.000Z''))
       = Some (HealthData (js ''healthy'') (js ''2026-02-08T00:00:00.000Z'') (js ''development''))"
    by (simp add: health_def mock_env_def opt_or_def)
  from ApiResponse_invariant [OF c1] s
  have a: "success (notFoundHandler (js ''GET'') (js ''/nowhere'')) = False
     \<and> data (notFoundHandler (js ''GET'') (js ''/nowhere'')) = None"
    by simp
  from ApiResponse_invariant [OF c2] h
  have b: "status (health mock_env (js ''2026-02-08T00:00:00.000Z'')) = 200
     \<and> error (health mock_env (js ''2026-02-08T00:00:00.000Z'')) = None"
    by blast
  show ?thesis using c1 c2 s e h d a b by blast
qed

end
